theory Spec2Isabelle
  imports Complex_Main
begin

section \<open>Data model\<close>

text \<open>
  JavaScript numbers are modelled as real numbers: every arithmetic step is exact. The one
  place where the floating-point result is not a number at all, a division \<open>0 / 0\<close> or
  \<open>0 * Infinity\<close> that yields \<open>NaN\<close>, is a branch of its own in the functions below
  (\<open>NaN_coordinates\<close>), never HOL's \<open>x / 0 = 0\<close>.
\<close>

type_synonym vec = "real \<times> real"

text \<open>The enums of \<open>utils/Enums\<close>, as the sources use them.\<close>

datatype Direction = LEFT | RIGHT | RANDOM

datatype WorldState = RUNNING | PAUSED | TRIAL_CORRECT | TRIAL_INCORRECT | PATCH_SELECTED | FINISHED

datatype error =
    NaN_coordinates       \<comment> \<open>a coordinate became \<open>NaN\<close>\<close>
  | TypeError             \<comment> \<open>a property of \<open>undefined\<close> was read\<close>
  | Error string          \<comment> \<open>\<open>throw new Error(msg)\<close>\<close>
  | No_return             \<comment> \<open>a loop that never ends\<close>

text \<open>Class \<open>Dot\<close>; \<open>dot_x\<close> and \<open>dot_y\<close> are the sprite's \<open>x\<close> and \<open>y\<close>.\<close>

record Dot =
  dot_x :: real
  dot_y :: real
  radius :: real
  isRandom :: bool
  direction :: Direction
  directionTimer :: real
  aliveTimer :: real
  maxAliveTimer :: real
  horMaxTime :: real
  ranMaxTime :: real
  speed :: real
  velocity :: vec

text \<open>
  Class \<open>AbstractMotionWorld\<close> (the fields the simulation reads and writes; the display
  objects are left out). \<open>'q\<close> is the quadtree, whose class is not part of the sources.
\<close>

record 'q MotionWorld =
  currentState :: WorldState
  dotsLeft :: "Dot list"
  dotsRight :: "Dot list"
  leftMinX :: real
  leftMaxX :: real
  patchMinY :: real
  patchMaxY :: real
  rightMinX :: real
  rightMaxX :: real
  coherentPatchSide :: Direction
  coherencePercent :: real
  dotsToKill :: real
  numberOfDots :: nat
  dotSpacing :: real
  dotRadius :: real
  dotMaxAliveTime :: real
  maxRunTime :: real
  runTime :: real
  quadTree :: 'q
  leftGridPoints :: "vec list"
  rightGridPoints :: "vec list"

text \<open>Class \<open>FormWorld\<close>: the fields of its base class that \<open>FormWorld.ts\<close> itself uses.\<close>

record FormWorld =
  form_currentState :: WorldState
  form_coherentPatchSide :: Direction
  form_coherencePercent :: real
  form_runTime :: real
  form_feedbackTimer :: real

section \<open>The adaptive staircase\<close>

text \<open>\<open>MotionTutorialTrialWorld.updateCoherency\<close>.\<close>

definition updateCoherency :: "real \<Rightarrow> bool \<Rightarrow> 'q MotionWorld \<Rightarrow> 'q MotionWorld" where
  "updateCoherency factor isCorrectAnswer w =
     (let temp = coherencePercent w * factor in
      if isCorrectAnswer then
        (if factor > 1 then w\<lparr>coherencePercent := coherencePercent w - (temp - coherencePercent w)\<rparr>
         else w\<lparr>coherencePercent := temp\<rparr>)
      else
        (let w1 = (if factor > 1 then w\<lparr>coherencePercent := temp\<rparr>
                   else w\<lparr>coherencePercent := coherencePercent w - (temp - coherencePercent w)\<rparr>)
         in if coherencePercent w1 > 100 then w1\<lparr>coherencePercent := 100\<rparr> else w1))"

text \<open>\<open>FormWorld.updateCoherency\<close>.\<close>

definition form_updateCoherency :: "real \<Rightarrow> bool \<Rightarrow> FormWorld \<Rightarrow> FormWorld" where
  "form_updateCoherency factor isCorrectAnswer w =
     (let temp = form_coherencePercent w * factor in
      if isCorrectAnswer then
        (if factor > 1
         then w\<lparr>form_coherencePercent := form_coherencePercent w - (temp - form_coherencePercent w)\<rparr>
         else w\<lparr>form_coherencePercent := temp\<rparr>)
      else
        (if temp > 100 then w\<lparr>form_coherencePercent := 100\<rparr>
         else w\<lparr>form_coherencePercent := temp\<rparr>))"

text \<open>A sequence of calls, one \<open>(factor, isCorrectAnswer)\<close> pair each, and the coherence
  level read after every call.\<close>

fun coherencyLevels :: "(real \<times> bool) list \<Rightarrow> 'q MotionWorld \<Rightarrow> real list" where
  "coherencyLevels [] w = []"
| "coherencyLevels ((f, b) # cs) w =
     coherencePercent (updateCoherency f b w) # coherencyLevels cs (updateCoherency f b w)"

fun form_coherencyLevels :: "(real \<times> bool) list \<Rightarrow> FormWorld \<Rightarrow> real list" where
  "form_coherencyLevels [] w = []"
| "form_coherencyLevels ((f, b) # cs) w =
     form_coherencePercent (form_updateCoherency f b w)
       # form_coherencyLevels cs (form_updateCoherency f b w)"

text \<open>Concrete worlds for the examples: a tutorial-trial world with a 100 x 100 left patch
  and no dots yet, and a form world, both at coherence 100.\<close>

definition exampleWorld :: "unit MotionWorld" where
  "exampleWorld =
     \<lparr>currentState = RUNNING, dotsLeft = [], dotsRight = [],
      leftMinX = 0, leftMaxX = 100, patchMinY = 0, patchMaxY = 100,
      rightMinX = 200, rightMaxX = 300,
      coherentPatchSide = LEFT, coherencePercent = 100, dotsToKill = 1,
      numberOfDots = 0, dotSpacing = 2, dotRadius = 5, dotMaxAliveTime = 85,
      maxRunTime = 5000, runTime = 0, quadTree = (),
      leftGridPoints = [], rightGridPoints = []\<rparr>"

definition exampleFormWorld :: FormWorld where
  "exampleFormWorld =
     \<lparr>form_currentState = RUNNING, form_coherentPatchSide = LEFT,
      form_coherencePercent = 100, form_runTime = 0, form_feedbackTimer = 0\<rparr>"

section \<open>Dots\<close>

text \<open>
  Modelled from the spec: \<open>utils/RotateVector\<close> is not part of the sources. "Rotation
  is a standard 2D rotation of the velocity vector"; the callers pass the angle in degrees.
\<close>

definition rotateVector :: "vec \<Rightarrow> real \<Rightarrow> vec" where
  "rotateVector v angle =
     (let a = angle * pi / 180
      in (cos a * fst v - sin a * snd v, sin a * fst v + cos a * snd v))"

text \<open>
  Modelled from the spec: \<open>utils/EuclideanDistance\<close> is not part of the sources; the "true
  Euclidean distance" between two points.
\<close>

definition euclideanDistance :: "real \<Rightarrow> real \<Rightarrow> real \<Rightarrow> real \<Rightarrow> real" where
  "euclideanDistance x1 y1 x2 y2 = sqrt ((x1 - x2)\<^sup>2 + (y1 - y2)\<^sup>2)"

text \<open>
  The random library \<open>rando.js\<close> is outside the repository. Its answers are a parameter:
  the \<open>k\<close>-th call returns \<open>rando k\<close> when it is \<open>rando()\<close>, \<open>rando1 k\<close> when it is the
  truth value of \<open>rando(1)\<close>, and \<open>randoSequence k xs\<close> when it shuffles \<open>xs\<close>. Every
  function that draws takes the number of calls made so far and returns the new number.

  The class \<open>QuadTree\<close> is not in the sources either, so its methods are parameters too:
  each gets the tree, the dots of the patch as they are at the call (the tree holds
  references to them) and the index of the dot concerned, and \<open>qt_retrieve\<close> returns the
  indices of the candidates. \<open>Direction_0\<close> and \<open>Direction_1\<close> stand for \<open>Direction[0]\<close>
  and \<open>Direction[1]\<close>, whose order the enum's missing declaration fixes, and
  \<open>resetAliveTimer\<close> is a method of \<open>Dot\<close> that the sources call and do not define.
\<close>

record 'q environment =
  rando :: "nat \<Rightarrow> real"
  rando1 :: "nat \<Rightarrow> bool"
  randoSequence :: "nat \<Rightarrow> vec list \<Rightarrow> vec list"
  qt_clear :: "'q \<Rightarrow> 'q"
  qt_insert :: "'q \<Rightarrow> Dot list \<Rightarrow> nat \<Rightarrow> 'q"
  qt_retrieve :: "'q \<Rightarrow> Dot list \<Rightarrow> nat \<Rightarrow> nat list"
  resetAliveTimer :: "Dot \<Rightarrow> Dot"
  Direction_0 :: Direction
  Direction_1 :: Direction

text \<open>The constructor of \<open>Dot\<close> (the texture is left out).\<close>

definition new_Dot ::
  "'q environment \<Rightarrow> nat \<Rightarrow> real \<Rightarrow> real \<Rightarrow> real \<Rightarrow> Direction \<Rightarrow> real \<Rightarrow> Dot \<times> nat" where
  "new_Dot env k x y r dir aliveTime =
     (let v = (if dir = LEFT then (- (1/5), 0) else (1/5, 0)) in
      if dir = RANDOM then
        (\<lparr>dot_x = x, dot_y = y, radius = r, isRandom = True, direction = dir,
          directionTimer = rando env (k + 1) * 30,
          aliveTimer = aliveTime, maxAliveTimer = aliveTime,
          horMaxTime = 30, ranMaxTime = 30, speed = 1/5,
          velocity = rotateVector v (rando env k * 360)\<rparr>, k + 2)
      else
        (\<lparr>dot_x = x, dot_y = y, radius = r, isRandom = False, direction = dir,
          directionTimer = 0,
          aliveTimer = aliveTime, maxAliveTimer = aliveTime,
          horMaxTime = 30, ranMaxTime = 30, speed = 1/5,
          velocity = v\<rparr>, k))"

definition updatePosition :: "real \<Rightarrow> Dot \<Rightarrow> Dot" where
  "updatePosition delta d =
     d\<lparr>dot_x := dot_x d + delta * fst (velocity d),
       dot_y := dot_y d + delta * snd (velocity d)\<rparr>"

text \<open>\<open>Dot.update\<close>.\<close>

definition update :: "'q environment \<Rightarrow> nat \<Rightarrow> real \<Rightarrow> Dot \<Rightarrow> Dot \<times> nat" where
  "update env k delta d =
     (let d1 = d\<lparr>directionTimer := directionTimer d + delta, aliveTimer := aliveTimer d - delta\<rparr>;
          d2 = (if \<not> isRandom d1 \<and> directionTimer d1 \<ge> horMaxTime d1
                then d1\<lparr>velocity := rotateVector (velocity d1) 180, directionTimer := 0\<rparr>
                else d1)
      in if isRandom d2 \<and> directionTimer d2 \<ge> ranMaxTime d2
         then (updatePosition delta
                 (d2\<lparr>velocity := rotateVector (velocity d2) (rando env k * 360),
                     directionTimer := 0\<rparr>), k + 1)
         else (updatePosition delta d2, k))"

text \<open>
  \<open>Dot.collideWithWall\<close>. With the centre on the wall point, \<open>dist\<close> is 0 and the scalar
  \<open>(2 * radius - dist) / dist\<close> is infinite or \<open>NaN\<close>, so both coordinates become \<open>NaN\<close>.
\<close>

definition collideWithWall :: "real \<Rightarrow> real \<Rightarrow> Dot \<Rightarrow> error + Dot" where
  "collideWithWall wallX wallY d =
     (let n = (dot_x d - wallX, dot_y d - wallY);
          dist = sqrt ((fst n)\<^sup>2 + (snd n)\<^sup>2)
      in if dist = 0 then Inl NaN_coordinates
         else
          (let distScalar = (2 * radius d - dist) / dist;
               mtd = (fst n * distScalar, snd n * distScalar);
               d1 = d\<lparr>dot_x := dot_x d + (fst mtd * 1 / 2), dot_y := dot_y d + (snd mtd * 1 / 2)\<rparr>
           in if fst mtd \<noteq> 0
              then Inr (d1\<lparr>velocity := (- fst (velocity d1), snd (velocity d1))\<rparr>)
              else Inr (d1\<lparr>velocity := (fst (velocity d1), - snd (velocity d1))\<rparr>)))"

text \<open>
  \<open>Dot.collideWithDot\<close>, after its identity check: \<open>this\<close> and \<open>dot\<close> are two objects.
  The result is the pair of both dots after the call. Two centres at the same point give
  \<open>dist = 0\<close> and, as above, \<open>NaN\<close> in every assigned coordinate.
\<close>

definition collideWithOther :: "Dot \<Rightarrow> Dot \<Rightarrow> error + Dot \<times> Dot" where
  "collideWithOther this dot =
     (let n = (dot_x this - dot_x dot, dot_y this - dot_y dot);
          dist = sqrt ((fst n)\<^sup>2 + (snd n)\<^sup>2)
      in if dist > 2 * radius this then Inr (this, dot)
         else if dist = 0 then Inl NaN_coordinates
         else
          (let distScalar = (2 * radius this - dist) / dist;
               mtd = (fst n * distScalar, snd n * distScalar);
               un = (fst n * 1 / dist, snd n * 1 / dist);
               ut = (- snd un, fst un);
               v1n = fst un * fst (velocity this) + snd un * snd (velocity this);
               v1t = fst ut * fst (velocity this) + snd ut * snd (velocity this);
               v2n = fst un * fst (velocity dot) + snd un * snd (velocity dot);
               v2t = fst ut * fst (velocity dot) + snd ut * snd (velocity dot);
               v1nPrime = v2n;
               v2nPrime = v1n;
               v1nPrimeVector = (fst un * v1nPrime, snd un * v1nPrime);
               v1tPrimeVector = (fst ut * v1t, snd ut * v1t);
               v2nPrimeVector = (fst un * v2nPrime, snd un * v2nPrime);
               v2tPrimeVector = (fst ut * v2t, snd ut * v2t)
           in if isRandom this \<and> \<not> isRandom dot then
                Inr (this\<lparr>dot_x := dot_x this + fst mtd, dot_y := dot_y this + snd mtd,
                          velocity := (fst v1nPrimeVector + fst v1tPrimeVector,
                                       snd v1nPrimeVector + snd v1tPrimeVector)\<rparr>,
                     dot)
              else if \<not> isRandom this \<and> isRandom dot then
                Inr (this,
                     dot\<lparr>dot_x := dot_x dot - fst mtd, dot_y := dot_y dot - snd mtd,
                         velocity := (fst v2nPrimeVector + fst v2tPrimeVector,
                                      snd v2nPrimeVector + snd v2tPrimeVector)\<rparr>)
              else
                Inr (this\<lparr>dot_x := dot_x this + (fst mtd * 1 / 2),
                          dot_y := dot_y this + (snd mtd * 1 / 2),
                          velocity := (fst v1nPrimeVector + fst v1tPrimeVector,
                                       snd v1nPrimeVector + snd v1tPrimeVector)\<rparr>,
                     dot\<lparr>dot_x := dot_x dot - (fst mtd * 1 / 2),
                         dot_y := dot_y dot - (snd mtd * 1 / 2),
                         velocity := (fst v2nPrimeVector + fst v2tPrimeVector,
                                      snd v2nPrimeVector + snd v2tPrimeVector)\<rparr>)))"

text \<open>
  \<open>Dot.collideWithDot\<close> on the dots of one patch: \<open>this\<close> is the dot at index \<open>i\<close>, the
  argument the dot at index \<open>j\<close>. The dots of an array are distinct objects, so the
  identity test \<open>dot == this\<close> is the test \<open>j = i\<close>.
\<close>

definition collideWithDot :: "nat \<Rightarrow> nat \<Rightarrow> Dot list \<Rightarrow> error + Dot list" where
  "collideWithDot i j dots =
     (if j = i then Inr dots
      else case collideWithOther (dots ! i) (dots ! j) of
             Inl e \<Rightarrow> Inl e
           | Inr (this, dot) \<Rightarrow> Inr (dots[i := this, j := dot]))"

text \<open>The vocabulary of the collision claims: normal, distance, minimum translation,
  unit normal and tangent of a pair of dots, and the component of a vector along another.\<close>

definition centreNormal :: "Dot \<Rightarrow> Dot \<Rightarrow> vec" where
  "centreNormal a b = (dot_x a - dot_x b, dot_y a - dot_y b)"

definition centreDistance :: "Dot \<Rightarrow> Dot \<Rightarrow> real" where
  "centreDistance a b = sqrt ((dot_x a - dot_x b)\<^sup>2 + (dot_y a - dot_y b)\<^sup>2)"

definition minimumTranslation :: "Dot \<Rightarrow> Dot \<Rightarrow> vec" where
  "minimumTranslation a b =
     (fst (centreNormal a b) * ((2 * radius a - centreDistance a b) / centreDistance a b),
      snd (centreNormal a b) * ((2 * radius a - centreDistance a b) / centreDistance a b))"

definition unitNormal :: "Dot \<Rightarrow> Dot \<Rightarrow> vec" where
  "unitNormal a b =
     (fst (centreNormal a b) / centreDistance a b, snd (centreNormal a b) / centreDistance a b)"

definition unitTangent :: "Dot \<Rightarrow> Dot \<Rightarrow> vec" where
  "unitTangent a b = (- snd (unitNormal a b), fst (unitNormal a b))"

definition along :: "vec \<Rightarrow> vec \<Rightarrow> real" where
  "along u v = fst u * fst v + snd u * snd v"

section \<open>The motion world\<close>

text \<open>\<open>checkWallCollisionLeftPatch\<close> and \<open>checkWallCollisionRightPatch\<close> (the same in both
  versions of \<open>AbstractMotionWorld\<close>).\<close>

definition checkWallCollisionLeftPatch :: "'q MotionWorld \<Rightarrow> Dot \<Rightarrow> error + Dot" where
  "checkWallCollisionLeftPatch w dot =
     (if dot_x dot - radius dot \<le> leftMinX w then collideWithWall (leftMinX w) (dot_y dot) dot
      else if dot_x dot + radius dot \<ge> leftMaxX w then collideWithWall (leftMaxX w) (dot_y dot) dot
      else if dot_y dot - radius dot \<le> patchMinY w then collideWithWall (dot_x dot) (patchMinY w) dot
      else if dot_y dot + radius dot \<ge> patchMaxY w then collideWithWall (dot_x dot) (patchMaxY w) dot
      else Inr dot)"

definition checkWallCollisionRightPatch :: "'q MotionWorld \<Rightarrow> Dot \<Rightarrow> error + Dot" where
  "checkWallCollisionRightPatch w dot =
     (if dot_x dot - radius dot \<le> rightMinX w then collideWithWall (rightMinX w) (dot_y dot) dot
      else if dot_x dot + radius dot \<ge> rightMaxX w then collideWithWall (rightMaxX w) (dot_y dot) dot
      else if dot_y dot - radius dot \<le> patchMinY w then collideWithWall (dot_x dot) (patchMinY w) dot
      else if dot_y dot + radius dot \<ge> patchMaxY w then collideWithWall (dot_x dot) (patchMaxY w) dot
      else Inr dot)"

text \<open>A dot for the examples: radius 5, speed 0.2, the timers of a fresh dot.\<close>

definition exampleDot :: "real \<Rightarrow> real \<Rightarrow> bool \<Rightarrow> vec \<Rightarrow> Dot" where
  "exampleDot x y rnd v =
     \<lparr>dot_x = x, dot_y = y, radius = 5, isRandom = rnd,
      direction = (if rnd then RANDOM else RIGHT),
      directionTimer = 0, aliveTimer = 85, maxAliveTimer = 85,
      horMaxTime = 30, ranMaxTime = 30, speed = 1/5, velocity = v\<rparr>"

text \<open>A \<open>forEach\<close> or \<open>for\<close> loop whose body can fail: the first failure ends the loop.\<close>

fun forEach :: "('a \<Rightarrow> 's \<Rightarrow> error + 's) \<Rightarrow> 'a list \<Rightarrow> 's \<Rightarrow> error + 's" where
  "forEach f [] s = Inr s"
| "forEach f (x # xs) s = (case f x s of Inl e \<Rightarrow> Inl e | Inr s' \<Rightarrow> forEach f xs s')"

text \<open>
  Modelled from the spec: \<open>Dot.setPosition\<close>, \<open>Dot.setDirection\<close>, \<open>Dot.setTimers\<close> and
  \<open>Dot.resetVelocity\<close> are called by the sources and not defined in them. At a new trial
  the dots' "position/mode/timers are reassigned ... rather than recreated": the setters
  assign what the constructor assigns for the same arguments.
\<close>

definition setPosition :: "real \<Rightarrow> real \<Rightarrow> Dot \<Rightarrow> Dot" where
  "setPosition x y d = d\<lparr>dot_x := x, dot_y := y\<rparr>"

definition setDirection :: "Direction \<Rightarrow> Dot \<Rightarrow> Dot" where
  "setDirection dir d = d\<lparr>direction := dir, isRandom := (dir = RANDOM)\<rparr>"

definition setTimers :: "'q environment \<Rightarrow> nat \<Rightarrow> real \<Rightarrow> Dot \<Rightarrow> Dot \<times> nat" where
  "setTimers env k aliveTime d =
     (if direction d = RANDOM
      then (d\<lparr>aliveTimer := aliveTime, maxAliveTimer := aliveTime,
               directionTimer := rando env k * ranMaxTime d\<rparr>, k + 1)
      else (d\<lparr>aliveTimer := aliveTime, maxAliveTimer := aliveTime, directionTimer := 0\<rparr>, k))"

definition resetVelocity :: "'q environment \<Rightarrow> nat \<Rightarrow> Dot \<Rightarrow> Dot \<times> nat" where
  "resetVelocity env k d =
     (let v = (if direction d = LEFT then (- speed d, 0) else (speed d, 0)) in
      if direction d = RANDOM
      then (d\<lparr>velocity := rotateVector v (rando env k * 360)\<rparr>, k + 1)
      else (d\<lparr>velocity := v\<rparr>, k))"

text \<open>\<open>quadTree.clear()\<close> followed by \<open>dots.forEach(dot => this.quadTree.insert(dot))\<close>.\<close>

definition insertDots :: "'q environment \<Rightarrow> Dot list \<Rightarrow> 'q \<Rightarrow> 'q" where
  "insertDots env dots q = fold (\<lambda>i q. qt_insert env q dots i) [0..<length dots] q"

text \<open>
  \<open>possibleCollisions = this.quadTree.retrieve([], dot)\<close> followed by
  \<open>possibleCollisions.forEach(otherDot => dot.collideWithDot(otherDot))\<close>, for the dot at
  index \<open>i\<close>. The tree holds only dots of the patch, so the candidates are indices into
  its array.
\<close>

definition collideWithCandidates :: "'q environment \<Rightarrow> 'q \<Rightarrow> nat \<Rightarrow> Dot list \<Rightarrow> error + Dot list" where
  "collideWithCandidates env q i dots =
     forEach (\<lambda>j ds. collideWithDot i j ds)
       (filter (\<lambda>j. j < length dots) (qt_retrieve env q dots i)) dots"

definition getRandomPosition ::
  "'q environment \<Rightarrow> nat \<Rightarrow> real \<Rightarrow> real \<Rightarrow> real \<Rightarrow> real \<Rightarrow> vec \<times> nat" where
  "getRandomPosition env k xMin yMin xMax yMax =
     ((rando env k * (xMax - xMin) + xMin, rando env (k + 1) * (yMax - yMin) + yMin), k + 2)"

text \<open>\<open>freeSpot\<close> and \<open>getFreeSpotInPatch\<close> (second version of \<open>AbstractMotionWorld\<close>). The
  \<open>do ... while\<close> loop has no bound: where it never ends the value is \<open>None\<close>.\<close>

fun freeSpot :: "'q MotionWorld \<Rightarrow> real \<Rightarrow> real \<Rightarrow> Dot list \<Rightarrow> bool" where
  "freeSpot w x y [] = True"
| "freeSpot w x y (d # dots) =
     (if euclideanDistance x y (dot_x d) (dot_y d) \<le> dotSpacing w + 2 * dotRadius w then False
      else freeSpot w x y dots)"

partial_function (option) getFreeSpotInPatch ::
  "'q environment \<Rightarrow> 'q MotionWorld \<Rightarrow> real \<Rightarrow> real \<Rightarrow> real \<Rightarrow> real \<Rightarrow> Dot list \<Rightarrow> nat
     \<Rightarrow> (vec \<times> nat) option" where
  "getFreeSpotInPatch env w minX minY maxX maxY dots k =
     (let x = rando env k * (maxX - minX) + minX;
          y = rando env (k + 1) * (maxY - minY) + minY
      in if \<not> freeSpot w x y dots
         then getFreeSpotInPatch env w minX minY maxX maxY dots (k + 2)
         else Some ((x, y), k + 2))"



text \<open>
  \<open>updateDots\<close>, first version of \<open>AbstractMotionWorld\<close> (respawn at a random position).
  The three loops over one patch come first: \<open>check\<close> is the wall check of the patch and
  \<open>minX\<close>, \<open>minY\<close>, \<open>maxX\<close>, \<open>maxY\<close> are the bounds passed to \<open>getRandomPosition\<close>.
\<close>

definition collisionLoop ::
  "(Dot \<Rightarrow> error + Dot) \<Rightarrow> 'q environment \<Rightarrow> 'q \<Rightarrow> Dot list \<Rightarrow> error + Dot list" where
  "collisionLoop check env q dots =
     forEach (\<lambda>i ds.
         case (if isRandom (ds ! i) then check (ds ! i) else Inr (ds ! i)) of
           Inl e \<Rightarrow> Inl e
         | Inr dot \<Rightarrow> collideWithCandidates env q i (ds[i := dot]))
       [0..<length dots] dots"

definition respawnLoop ::
  "'q environment \<Rightarrow> real \<Rightarrow> real \<Rightarrow> real \<Rightarrow> real \<Rightarrow> real \<Rightarrow> Dot list \<times> nat \<Rightarrow> Dot list \<times> nat" where
  "respawnLoop env minX minY maxX maxY delta dk =
     fold (\<lambda>i (ds, k).
         let (dot, k1) = update env k delta (ds ! i) in
         if aliveTimer dot \<le> 0 then
           (let (dotPosition, k2) = getRandomPosition env k1 minX minY maxX maxY
            in (ds[i := setPosition (fst dotPosition) (snd dotPosition) (resetAliveTimer env dot)], k2))
         else (ds[i := dot], k1))
       [0..<length (fst dk)] dk"

definition updateDots ::
  "'q environment \<Rightarrow> real \<Rightarrow> 'q MotionWorld \<times> nat \<Rightarrow> error + 'q MotionWorld \<times> nat" where
  "updateDots env delta wk =
     (let w = (fst wk)\<lparr>runTime := runTime (fst wk) + delta\<rparr>; k = snd wk in
      if runTime w \<ge> maxRunTime w then Inr (w\<lparr>currentState := PAUSED\<rparr>, k)
      else
        (let q1 = insertDots env (dotsLeft w) (qt_clear env (quadTree w)) in
         case collisionLoop (checkWallCollisionLeftPatch w) env q1 (dotsLeft w) of
           Inl e \<Rightarrow> Inl e
         | Inr dl \<Rightarrow>
            (let (dl', k1) = respawnLoop env (leftMinX w + dotRadius w) (patchMinY w + dotRadius w)
                               (leftMaxX w - dotRadius w) (patchMaxY w - dotRadius w) delta (dl, k);
                 q2 = insertDots env (dotsRight w) (qt_clear env q1)
             in case collisionLoop (checkWallCollisionRightPatch w) env q2 (dotsRight w) of
                  Inl e \<Rightarrow> Inl e
                | Inr dr \<Rightarrow>
                   (let (dr', k2) = respawnLoop env (rightMinX w + dotRadius w) (patchMinY w + dotRadius w)
                                      (rightMaxX w - dotRadius w) (patchMaxY w - dotRadius w) delta (dr, k1)
                    in Inr (w\<lparr>dotsLeft := dl', dotsRight := dr', quadTree := q2\<rparr>, k2)))))"

text \<open>
  \<open>updateDots\<close>, second version of \<open>AbstractMotionWorld\<close>: the wall check runs in the
  insertion loop, and a dot respawns on a free spot.
\<close>

definition insertLoop2 ::
  "(Dot \<Rightarrow> error + Dot) \<Rightarrow> 'q environment \<Rightarrow> 'q \<times> Dot list \<Rightarrow> error + 'q \<times> Dot list" where
  "insertLoop2 check env qd =
     forEach (\<lambda>i (q, ds).
         let q' = qt_insert env q ds i in
         if isRandom (ds ! i) then
           (case check (ds ! i) of Inl e \<Rightarrow> Inl e | Inr dot \<Rightarrow> Inr (q', ds[i := dot]))
         else Inr (q', ds))
       [0..<length (snd qd)] qd"

definition collisionLoop2 :: "'q environment \<Rightarrow> 'q \<Rightarrow> Dot list \<Rightarrow> error + Dot list" where
  "collisionLoop2 env q dots =
     forEach (\<lambda>i ds. collideWithCandidates env q i ds) [0..<length dots] dots"

definition respawnLoop2 ::
  "'q environment \<Rightarrow> 'q MotionWorld \<Rightarrow> real \<Rightarrow> real \<Rightarrow> real \<Rightarrow> real \<Rightarrow> real \<Rightarrow> Dot list \<times> nat
     \<Rightarrow> error + Dot list \<times> nat" where
  "respawnLoop2 env w minX minY maxX maxY delta dk =
     forEach (\<lambda>i (ds, k).
         let (dot, k1) = update env k delta (ds ! i) in
         if aliveTimer dot \<le> 0 then
           (let ds1 = ds[i := resetAliveTimer env dot] in
            case getFreeSpotInPatch env w minX minY maxX maxY ds1 k1 of
              None \<Rightarrow> Inl No_return
            | Some (dotPosition, k2) \<Rightarrow>
                Inr (ds1[i := setPosition (fst dotPosition) (snd dotPosition) (ds1 ! i)], k2))
         else Inr (ds[i := dot], k1))
       [0..<length (fst dk)] dk"

definition updateDots2 ::
  "'q environment \<Rightarrow> real \<Rightarrow> 'q MotionWorld \<times> nat \<Rightarrow> error + 'q MotionWorld \<times> nat" where
  "updateDots2 env delta wk =
     (let w = (fst wk)\<lparr>runTime := runTime (fst wk) + delta\<rparr>; k = snd wk in
      if runTime w \<ge> maxRunTime w then Inr (w\<lparr>currentState := PAUSED\<rparr>, k)
      else
        (case insertLoop2 (checkWallCollisionLeftPatch w) env (qt_clear env (quadTree w), dotsLeft w) of
           Inl e \<Rightarrow> Inl e
         | Inr (q1, dl0) \<Rightarrow>
        (case collisionLoop2 env q1 dl0 of
           Inl e \<Rightarrow> Inl e
         | Inr dl1 \<Rightarrow>
        (case respawnLoop2 env w (leftMinX w + dotRadius w) (patchMinY w + dotRadius w)
                (leftMaxX w - dotRadius w) (patchMaxY w - dotRadius w) delta (dl1, k) of
           Inl e \<Rightarrow> Inl e
         | Inr (dl', k1) \<Rightarrow>
        (case insertLoop2 (checkWallCollisionRightPatch w) env (qt_clear env q1, dotsRight w) of
           Inl e \<Rightarrow> Inl e
         | Inr (q2, dr0) \<Rightarrow>
        (case collisionLoop2 env q2 dr0 of
           Inl e \<Rightarrow> Inl e
         | Inr dr1 \<Rightarrow>
        (case respawnLoop2 env w (rightMinX w + dotRadius w) (patchMinY w + dotRadius w)
                (rightMaxX w - dotRadius w) (patchMaxY w - dotRadius w) delta (dr1, k1) of
           Inl e \<Rightarrow> Inl e
         | Inr (dr', k2) \<Rightarrow>
             Inr (w\<lparr>dotsLeft := dl', dotsRight := dr', quadTree := q2\<rparr>, k2))))))))"


section \<open>The tutorial-trial world\<close>

text \<open>
  The remainder operator \<open>a % b\<close> on numbers, for \<open>b \<noteq> 0\<close>: \<open>a\<close> minus \<open>b\<close> times the
  quotient truncated towards zero.
\<close>

definition js_remainder :: "real \<Rightarrow> real \<Rightarrow> real" where
  "js_remainder a b = a - b * of_int (if 0 \<le> a / b then \<lfloor>a / b\<rfloor> else \<lceil>a / b\<rceil>)"

text \<open>
  \<open>createGridPoints\<close>. The message of the error is cut to its first sentence. With
  \<open>spacing = 0\<close> both remainders are \<open>NaN\<close>: every comparison with them is false, so nothing
  is thrown, no loop runs and the result is empty.
\<close>

definition createGridPoints ::
  "'q MotionWorld \<Rightarrow> real \<Rightarrow> real \<Rightarrow> real \<Rightarrow> real \<Rightarrow> real \<Rightarrow> error + vec list" where
  "createGridPoints w xMin xMax yMin yMax spacing =
     (if spacing = 0 then Inr []
      else
       (let width = of_int \<lfloor>xMax - xMin\<rfloor>;
            height = of_int \<lfloor>yMax - yMin\<rfloor>;
            xOffset = js_remainder width spacing;
            yOffset = js_remainder height spacing;
            xLines = \<lfloor>(width - xOffset) / spacing\<rfloor>;
            yLines = \<lfloor>(height - yOffset) / spacing\<rfloor>
        in if xLines * yLines < int (numberOfDots w)
           then Inl (Error ''Cannot spawn dots with the current settings.'')
           else
            (let startX = xMin + (xOffset / 2);
                 startY = yMin + (yOffset / 2)
             in Inr (concat (map (\<lambda>i. concat (map (\<lambda>j.
                       let x = startX + sin (real j) + real i * spacing;
                           y = startY + sin (real i) + real j * spacing
                       in if x \<le> xMax - (xOffset / 2) \<and> x \<ge> xMin + (xOffset / 2)
                             \<and> y \<le> yMax - (yOffset / 2) \<and> y \<ge> yMin + (yOffset / 2)
                          then [(x, y)] else [])
                     [0..<nat yLines])) [0..<nat xLines])))))"

text \<open>
  \<open>createDots\<close>. The state of its loop is the multiplier, the number of coherent dots, both
  arrays of dots and the number of draws. Reading \<open>.value\<close> of a grid point that is not
  there is a \<open>TypeError\<close>.
\<close>

definition createDotsStep ::
  "'q environment \<Rightarrow> 'q MotionWorld \<Rightarrow> Direction \<Rightarrow> vec list \<Rightarrow> vec list \<Rightarrow> nat
     \<Rightarrow> nat \<times> nat \<times> Dot list \<times> Dot list \<times> nat
     \<Rightarrow> error + nat \<times> nat \<times> Dot list \<times> Dot list \<times> nat" where
  "createDotsStep env w coherentDirection shuffledLeftGridPoints shuffledRightGridPoints i st =
     (case st of (multiplier, numberOfCoherentDots, dl, dr, k) \<Rightarrow>
       let maxAliveTimeMultiplier =
             (if real i = dotsToKill w * real multiplier then multiplier + 1 else multiplier);
           currentCoherencePercent = (real numberOfCoherentDots / real (numberOfDots w)) * 100
       in if length shuffledLeftGridPoints \<le> i then Inl TypeError
          else
           (let dotPosition = shuffledLeftGridPoints ! i;
                coherentLeft = (coherentPatchSide w = LEFT \<and> currentCoherencePercent < coherencePercent w);
                (dotL, k1) = new_Dot env k (fst dotPosition) (snd dotPosition) (dotRadius w)
                               (if coherentLeft then coherentDirection else RANDOM)
                               (dotMaxAliveTime w * real maxAliveTimeMultiplier);
                n1 = (if coherentLeft then numberOfCoherentDots + 1 else numberOfCoherentDots)
            in if length shuffledRightGridPoints \<le> i then Inl TypeError
               else
                (let dotPosition = shuffledRightGridPoints ! i;
                     coherentRight = (coherentPatchSide w = RIGHT \<and> currentCoherencePercent < coherencePercent w);
                     (dotR, k2) = new_Dot env k1 (fst dotPosition) (snd dotPosition) (dotRadius w)
                                    (if coherentRight then coherentDirection else RANDOM)
                                    (dotMaxAliveTime w * real maxAliveTimeMultiplier);
                     n2 = (if coherentRight then n1 + 1 else n1)
                 in Inr (maxAliveTimeMultiplier, n2, dl @ [dotL], dr @ [dotR], k2))))"

definition createDots :: "'q environment \<Rightarrow> 'q MotionWorld \<times> nat \<Rightarrow> error + 'q MotionWorld \<times> nat" where
  "createDots env wk =
     (let k = snd wk;
          shuffledLeftGridPoints = randoSequence env k (leftGridPoints (fst wk));
          shuffledRightGridPoints = randoSequence env (k + 1) (rightGridPoints (fst wk));
          w = (fst wk)\<lparr>coherentPatchSide :=
                         (if rando1 env (k + 2) then Direction_0 env else Direction_1 env)\<rparr>;
          coherentDirection = (if rando1 env (k + 3) then RIGHT else LEFT)
      in case forEach (createDotsStep env w coherentDirection shuffledLeftGridPoints shuffledRightGridPoints)
                [0..<numberOfDots w] (1, 0, dotsLeft w, dotsRight w, k + 4) of
           Inl e \<Rightarrow> Inl e
         | Inr (multiplier, numberOfCoherentDots, dl, dr, k') \<Rightarrow>
             Inr (w\<lparr>dotsLeft := dl, dotsRight := dr\<rparr>, k'))"

text \<open>
  \<open>createNewTrial\<close>: the same loop over the dots that exist, reassigned by the four setters.
  Calling a setter on a dot that is not there is a \<open>TypeError\<close>.
\<close>

definition reassign ::
  "'q environment \<Rightarrow> nat \<Rightarrow> vec \<Rightarrow> Direction \<Rightarrow> real \<Rightarrow> Dot \<Rightarrow> Dot \<times> nat" where
  "reassign env k dotPosition dir aliveTime dot =
     (let d1 = setPosition (fst dotPosition) (snd dotPosition) dot;
          d2 = setDirection dir d1;
          (d3, k1) = setTimers env k aliveTime d2
      in resetVelocity env k1 d3)"

definition createNewTrialStep ::
  "'q environment \<Rightarrow> 'q MotionWorld \<Rightarrow> Direction \<Rightarrow> vec list \<Rightarrow> vec list \<Rightarrow> nat
     \<Rightarrow> nat \<times> nat \<times> Dot list \<times> Dot list \<times> nat
     \<Rightarrow> error + nat \<times> nat \<times> Dot list \<times> Dot list \<times> nat" where
  "createNewTrialStep env w coherentDirection shuffledLeftGridPoints shuffledRightGridPoints i st =
     (case st of (multiplier, numberOfCoherentDots, dl, dr, k) \<Rightarrow>
       let maxAliveTimeMultiplier =
             (if real i = dotsToKill w * real multiplier then multiplier + 1 else multiplier);
           currentCoherencePercent = (real numberOfCoherentDots / real (numberOfDots w)) * 100
       in if length shuffledLeftGridPoints \<le> i \<or> length dl \<le> i then Inl TypeError
          else
           (let dotPosition = shuffledLeftGridPoints ! i;
                coherentLeft = (coherentPatchSide w = LEFT \<and> currentCoherencePercent < coherencePercent w);
                (dotL, k1) = reassign env k dotPosition
                               (if coherentLeft then coherentDirection else RANDOM)
                               (dotMaxAliveTime w * real maxAliveTimeMultiplier) (dl ! i);
                n1 = (if coherentLeft then numberOfCoherentDots + 1 else numberOfCoherentDots)
            in if length shuffledRightGridPoints \<le> i \<or> length dr \<le> i then Inl TypeError
               else
                (let dotPosition = shuffledRightGridPoints ! i;
                     coherentRight = (coherentPatchSide w = RIGHT \<and> currentCoherencePercent < coherencePercent w);
                     (dotR, k2) = reassign env k1 dotPosition
                                    (if coherentRight then coherentDirection else RANDOM)
                                    (dotMaxAliveTime w * real maxAliveTimeMultiplier) (dr ! i);
                     n2 = (if coherentRight then n1 + 1 else n1)
                 in Inr (maxAliveTimeMultiplier, n2, dl[i := dotL], dr[i := dotR], k2))))"

definition createNewTrial :: "'q environment \<Rightarrow> 'q MotionWorld \<times> nat \<Rightarrow> error + 'q MotionWorld \<times> nat" where
  "createNewTrial env wk =
     (let k = snd wk;
          shuffledLeftGridPoints = randoSequence env k (leftGridPoints (fst wk));
          shuffledRightGridPoints = randoSequence env (k + 1) (rightGridPoints (fst wk));
          w = (fst wk)\<lparr>coherentPatchSide :=
                         (if rando1 env (k + 2) then Direction_0 env else Direction_1 env)\<rparr>;
          coherentDirection = (if rando1 env (k + 3) then RIGHT else LEFT)
      in case forEach (createNewTrialStep env w coherentDirection shuffledLeftGridPoints shuffledRightGridPoints)
                [0..<numberOfDots w] (1, 0, dotsLeft w, dotsRight w, k + 4) of
           Inl e \<Rightarrow> Inl e
         | Inr (multiplier, numberOfCoherentDots, dl, dr, k') \<Rightarrow>
             Inr (w\<lparr>dotsLeft := dl, dotsRight := dr\<rparr>, k'))"

text \<open>An environment for the examples: the draws \<open>1/2, 1/3, 1/4, ...\<close>, shuffles that leave the
  list as it is, a tree that is a unit and offers every dot of the patch as a candidate.\<close>

definition exampleEnvironment :: "unit environment" where
  "exampleEnvironment =
     \<lparr>rando = (\<lambda>k. 1 / (real k + 2)), rando1 = (\<lambda>k. even k),
      randoSequence = (\<lambda>k xs. xs),
      qt_clear = (\<lambda>q. q), qt_insert = (\<lambda>q dots i. q),
      qt_retrieve = (\<lambda>q dots i. [0..<length dots]),
      resetAliveTimer = (\<lambda>d. d\<lparr>aliveTimer := maxAliveTimer d\<rparr>),
      Direction_0 = LEFT, Direction_1 = RIGHT\<rparr>"

text \<open>
  The vocabulary of the claim on the patches: no dot of a patch that is not the coherent one
  is anything but a Random dot.
\<close>

definition nonCoherentRandom :: "Direction \<Rightarrow> Dot list \<Rightarrow> Dot list \<Rightarrow> bool" where
  "nonCoherentRandom side dl dr \<longleftrightarrow>
     (side \<noteq> LEFT \<longrightarrow> (\<forall>d \<in> set dl. isRandom d \<and> direction d = RANDOM))
     \<and> (side \<noteq> RIGHT \<longrightarrow> (\<forall>d \<in> set dr. isRandom d \<and> direction d = RANDOM))"

text \<open>A tutorial-trial world for the examples: two dots a patch, half of them coherent,
  two grid points a patch.\<close>

definition trialWorld :: "unit MotionWorld" where
  "trialWorld = exampleWorld\<lparr>numberOfDots := 2, coherencePercent := 50,
      leftGridPoints := [(10, 10), (30, 30)], rightGridPoints := [(210, 10), (230, 30)]\<rparr>"

section \<open>Properties of the staircase\<close>

text \<open>
  C2. A correct answer sets the coherence level to \<open>c * f\<close> when \<open>f \<le> 1\<close> and to
  \<open>c - (c * f - c)\<close> when \<open>f > 1\<close>, in the tutorial-trial world and in the form world
  alike, and nothing else of the world changes; from 50, factor 0.5 gives 25.
\<close>

theorem updateCoherency_correct:
  "updateCoherency f True w
     = w\<lparr>coherencePercent :=
           (if f \<le> 1 then coherencePercent w * f
            else coherencePercent w - (coherencePercent w * f - coherencePercent w))\<rparr>
   \<and> form_updateCoherency f True fw
     = fw\<lparr>form_coherencePercent :=
           (if f \<le> 1 then form_coherencePercent fw * f
            else form_coherencePercent fw - (form_coherencePercent fw * f - form_coherencePercent fw))\<rparr>
   \<and> coherencePercent (updateCoherency (1/2) True (w\<lparr>coherencePercent := 50\<rparr>)) = 25
   \<and> form_coherencePercent (form_updateCoherency (1/2) True (fw\<lparr>form_coherencePercent := 50\<rparr>)) = 25"
  by (simp add: updateCoherency_def form_updateCoherency_def Let_def not_le)

text \<open>
  C1, as stated, fails: only the branch for a wrong answer clamps. From 100, two correct
  answers with factor 4 give -200 and then 400, in both worlds.
\<close>

theorem coherency_clamp_counterexample:
  "coherencePercent exampleWorld = 100
   \<and> coherencyLevels [(4, True), (4, True)] exampleWorld = [-200, 400]
   \<and> form_coherencePercent exampleFormWorld = 100
   \<and> form_coherencyLevels [(4, True), (4, True)] exampleFormWorld = [-200, 400]"
  by (simp add: exampleWorld_def exampleFormWorld_def updateCoherency_def
        form_updateCoherency_def Let_def)

lemma updateCoherency_range:
  assumes "0 \<le> coherencePercent w" "coherencePercent w \<le> 100" "0 < f" "b \<longrightarrow> f \<le> 2"
  shows "0 \<le> coherencePercent (updateCoherency f b w)
       \<and> coherencePercent (updateCoherency f b w) \<le> 100"
proof -
  let ?c = "coherencePercent w"
  have up: "?c * f \<le> ?c" if "f \<le> 1"
    using assms(1) that by (simp add: mult_left_le)
  have lo: "0 \<le> ?c * f"
    using assms(1,3) by simp
  have two: "?c * f \<le> 2 * ?c" if "f \<le> 2"
    using mult_left_mono [OF that assms(1)] by simp
  have ge: "?c \<le> ?c * f" if "1 < f"
    using mult_left_mono [of 1 f ?c] assms(1) that by simp
  show ?thesis
    using assms(1,2,4) up lo two ge
    by (cases b; cases "f > 1") (auto simp: updateCoherency_def Let_def)
qed

lemma form_updateCoherency_range:
  assumes "0 \<le> form_coherencePercent w" "form_coherencePercent w \<le> 100" "0 < f" "b \<longrightarrow> f \<le> 2"
  shows "0 \<le> form_coherencePercent (form_updateCoherency f b w)
       \<and> form_coherencePercent (form_updateCoherency f b w) \<le> 100"
proof -
  let ?c = "form_coherencePercent w"
  have up: "?c * f \<le> ?c" if "f \<le> 1"
    using assms(1) that by (simp add: mult_left_le)
  have lo: "0 \<le> ?c * f"
    using assms(1,3) by simp
  have two: "?c * f \<le> 2 * ?c" if "f \<le> 2"
    using mult_left_mono [OF that assms(1)] by simp
  have ge: "?c \<le> ?c * f" if "1 < f"
    using mult_left_mono [of 1 f ?c] assms(1) that by simp
  show ?thesis
    using assms(1,2,4) up lo two ge
    by (cases b; cases "f > 1") (auto simp: form_updateCoherency_def Let_def)
qed

lemma coherencyLevels_range:
  "0 \<le> coherencePercent w \<Longrightarrow> coherencePercent w \<le> 100 \<Longrightarrow>
   \<forall>c \<in> set cs. 0 < fst c \<and> (snd c \<longrightarrow> fst c \<le> 2) \<Longrightarrow>
   \<forall>v \<in> set (coherencyLevels cs w). 0 \<le> v \<and> v \<le> 100"
proof (induction cs arbitrary: w)
  case Nil
  then show ?case by simp
next
  case (Cons c cs)
  obtain f b where c: "c = (f, b)" by (cases c)
  from Cons.prems c have f: "0 < f" "b \<longrightarrow> f \<le> 2" by auto
  note step = updateCoherency_range [OF Cons.prems(1,2) f]
  from Cons.prems(3) have rest: "\<forall>c \<in> set cs. 0 < fst c \<and> (snd c \<longrightarrow> fst c \<le> 2)" by simp
  from Cons.IH [of "updateCoherency f b w"] step rest
  show ?case by (simp add: c)
qed

lemma form_coherencyLevels_range:
  "0 \<le> form_coherencePercent w \<Longrightarrow> form_coherencePercent w \<le> 100 \<Longrightarrow>
   \<forall>c \<in> set cs. 0 < fst c \<and> (snd c \<longrightarrow> fst c \<le> 2) \<Longrightarrow>
   \<forall>v \<in> set (form_coherencyLevels cs w). 0 \<le> v \<and> v \<le> 100"
proof (induction cs arbitrary: w)
  case Nil
  then show ?case by simp
next
  case (Cons c cs)
  obtain f b where c: "c = (f, b)" by (cases c)
  from Cons.prems c have f: "0 < f" "b \<longrightarrow> f \<le> 2" by auto
  note step = form_updateCoherency_range [OF Cons.prems(1,2) f]
  from Cons.prems(3) have rest: "\<forall>c \<in> set cs. 0 < fst c \<and> (snd c \<longrightarrow> fst c \<le> 2)" by simp
  from Cons.IH [of "form_updateCoherency f b w"] step rest
  show ?case by (simp add: c)
qed

text \<open>
  C1, amended: from a coherence level in [0, 100], every sequence of calls with positive
  factors in which each correct answer comes with a factor of at most 2 keeps the level in
  [0, 100] after each call, in both worlds; the factor of a wrong answer is any positive
  number.
\<close>

theorem coherency_clamp:
  assumes "0 \<le> coherencePercent w" and "coherencePercent w \<le> 100"
    and "0 \<le> form_coherencePercent fw" and "form_coherencePercent fw \<le> 100"
    and "\<forall>c \<in> set cs. 0 < fst c \<and> (snd c \<longrightarrow> fst c \<le> 2)"
  shows "(\<forall>v \<in> set (coherencyLevels cs w). 0 \<le> v \<and> v \<le> 100)
       \<and> (\<forall>v \<in> set (form_coherencyLevels cs fw). 0 \<le> v \<and> v \<le> 100)"
  using coherencyLevels_range [OF assms(1,2,5)] form_coherencyLevels_range [OF assms(3,4,5)]
  by simp

theorem coherency_clamp_witness:
  "coherencyLevels [(3, False), (1/2, True), (10, False), (3/2, True), (1/2, False), (2, True)]
       exampleWorld = [100, 50, 100, 50, 75, 0]
   \<and> form_coherencyLevels [(3, False), (1/2, True), (10, False), (3/2, True), (1/2, False), (2, True)]
       exampleFormWorld = [100, 50, 100, 50, 25, 0]
   \<and> list_all (\<lambda>v. 0 \<le> v \<and> v \<le> 100)
     (coherencyLevels [(3, False), (1/2, True), (10, False), (3/2, True), (1/2, False), (2, True)]
        exampleWorld)
   \<and> list_all (\<lambda>v. 0 \<le> v \<and> v \<le> 100)
     (form_coherencyLevels [(3, False), (1/2, True), (10, False), (3/2, True), (1/2, False), (2, True)]
        exampleFormWorld)"
proof -
  have w: "0 \<le> coherencePercent exampleWorld" "coherencePercent exampleWorld \<le> 100"
    by (simp_all add: exampleWorld_def)
  have fw: "0 \<le> form_coherencePercent exampleFormWorld"
    "form_coherencePercent exampleFormWorld \<le> 100"
    by (simp_all add: exampleFormWorld_def)
  have cs: "\<forall>c \<in> set [(3, False), (1/2, True), (10, False), (3/2, True), (1/2, False), (2, True)].
      0 < fst c \<and> (snd c \<longrightarrow> fst c \<le> (2::real))"
    by simp
  have levels: "coherencyLevels [(3, False), (1/2, True), (10, False), (3/2, True), (1/2, False), (2, True)]
       exampleWorld = [100, 50, 100, 50, 75, 0]"
    "form_coherencyLevels [(3, False), (1/2, True), (10, False), (3/2, True), (1/2, False), (2, True)]
       exampleFormWorld = [100, 50, 100, 50, 25, 0]"
    by (simp_all add: exampleWorld_def exampleFormWorld_def updateCoherency_def
          form_updateCoherency_def Let_def)
  from coherency_clamp [OF w fw cs] levels show ?thesis
    unfolding list_all_iff by blast
qed

text \<open>
  C3, as stated, fails in the tutorial-trial world for a factor of at most 1: a wrong answer
  at level 50 with factor 0.5 gives 75, where \<open>c * f\<close> clamped to 100 is 25.
\<close>

theorem updateCoherency_incorrect_counterexample:
  "coherencePercent (updateCoherency (1/2) False (exampleWorld\<lparr>coherencePercent := 50\<rparr>)) = 75
   \<and> min (50 * (1/2)) (100::real) = 25"
  by (simp add: exampleWorld_def updateCoherency_def Let_def)

text \<open>
  C3, amended: a wrong answer sets the level to \<open>c * f\<close> clamped to at most 100 in the form
  world for every factor and in the tutorial-trial world for a factor above 1; in the
  tutorial-trial world with a factor of at most 1 it sets it to \<open>c - (c * f - c)\<close>,
  clamped to at most 100.
\<close>

theorem updateCoherency_incorrect:
  "updateCoherency f False w
     = w\<lparr>coherencePercent :=
           min (if f > 1 then coherencePercent w * f
                else coherencePercent w - (coherencePercent w * f - coherencePercent w)) 100\<rparr>
   \<and> form_updateCoherency f False fw
     = fw\<lparr>form_coherencePercent := min (form_coherencePercent fw * f) 100\<rparr>"
  by (simp add: updateCoherency_def form_updateCoherency_def Let_def min_def)

section \<open>Properties of the collisions\<close>


lemma along_unitNormal_self:
  assumes "0 < centreDistance a b"
  shows "along (unitNormal a b) (unitNormal a b) = 1"
proof -
  let ?p = "dot_x a - dot_x b" and ?q = "dot_y a - dot_y b"
  have sq: "(centreDistance a b)\<^sup>2 = ?p\<^sup>2 + ?q\<^sup>2"
    by (simp add: centreDistance_def)
  have "along (unitNormal a b) (unitNormal a b) = (?p\<^sup>2 + ?q\<^sup>2) / (centreDistance a b)\<^sup>2"
    by (simp add: along_def unitNormal_def centreNormal_def power2_eq_square add_divide_distrib)
  also have "\<dots> = 1" using assms by (simp add: sq [symmetric])
  finally show ?thesis .
qed

lemma along_unitTangent_self:
  assumes "0 < centreDistance a b"
  shows "along (unitTangent a b) (unitTangent a b) = 1"
  using along_unitNormal_self [OF assms]
  by (simp add: along_def unitTangent_def add.commute)

lemma along_normal_tangent:
  "along (unitNormal a b) (unitTangent a b) = 0" "along (unitTangent a b) (unitNormal a b) = 0"
  by (simp_all add: along_def unitTangent_def mult.commute)

lemma along_combination:
  "along u (fst p * s + fst q * t, snd p * s + snd q * t) = s * along u p + t * along u q"
  by (simp add: along_def algebra_simps)

lemma collideWithOther_result:
  assumes "0 < centreDistance this dot" "centreDistance this dot \<le> 2 * radius this"
  shows "collideWithOther this dot =
     (let mtd = minimumTranslation this dot;
          un = unitNormal this dot; ut = unitTangent this dot;
          v1 = (fst un * along un (velocity dot) + fst ut * along ut (velocity this),
                snd un * along un (velocity dot) + snd ut * along ut (velocity this));
          v2 = (fst un * along un (velocity this) + fst ut * along ut (velocity dot),
                snd un * along un (velocity this) + snd ut * along ut (velocity dot))
      in if isRandom this \<and> \<not> isRandom dot then
           Inr (this\<lparr>dot_x := dot_x this + fst mtd, dot_y := dot_y this + snd mtd, velocity := v1\<rparr>, dot)
         else if \<not> isRandom this \<and> isRandom dot then
           Inr (this, dot\<lparr>dot_x := dot_x dot - fst mtd, dot_y := dot_y dot - snd mtd, velocity := v2\<rparr>)
         else
           Inr (this\<lparr>dot_x := dot_x this + fst mtd / 2, dot_y := dot_y this + snd mtd / 2, velocity := v1\<rparr>,
                dot\<lparr>dot_x := dot_x dot - fst mtd / 2, dot_y := dot_y dot - snd mtd / 2, velocity := v2\<rparr>))"
  using assms
  by (auto simp: collideWithOther_def Let_def minimumTranslation_def unitNormal_def unitTangent_def
        centreNormal_def centreDistance_def along_def)


lemma collideWithWall_vertical:
  assumes "dot_x d \<noteq> wx"
  shows "collideWithWall wx (dot_y d) d =
     Inr (d\<lparr>dot_x := dot_x d + (dot_x d - wx) / \<bar>dot_x d - wx\<bar> * (radius d - \<bar>dot_x d - wx\<bar> / 2),
            velocity := (if \<bar>dot_x d - wx\<bar> = 2 * radius d
                         then (fst (velocity d), - snd (velocity d))
                         else (- fst (velocity d), snd (velocity d)))\<rparr>)"
proof -
  have ne: "\<bar>dot_x d - wx\<bar> \<noteq> 0" using assms by simp
  have "(dot_x d - wx) * ((2 * radius d - \<bar>dot_x d - wx\<bar>) / \<bar>dot_x d - wx\<bar>) / 2
      = (dot_x d - wx) / \<bar>dot_x d - wx\<bar> * (radius d - \<bar>dot_x d - wx\<bar> / 2)"
    by (simp add: field_simps)
  then show ?thesis
    using assms by (simp add: collideWithWall_def Let_def)
qed

lemma collideWithWall_horizontal:
  assumes "dot_y d \<noteq> wy"
  shows "collideWithWall (dot_x d) wy d =
     Inr (d\<lparr>dot_y := dot_y d + (dot_y d - wy) / \<bar>dot_y d - wy\<bar> * (radius d - \<bar>dot_y d - wy\<bar> / 2),
            velocity := (fst (velocity d), - snd (velocity d))\<rparr>)"
proof -
  have "(dot_y d - wy) * ((2 * radius d - \<bar>dot_y d - wy\<bar>) / \<bar>dot_y d - wy\<bar>) / 2
      = (dot_y d - wy) / \<bar>dot_y d - wy\<bar> * (radius d - \<bar>dot_y d - wy\<bar> / 2)"
    by (simp add: field_simps)
  then show ?thesis
    using assms by (simp add: collideWithWall_def Let_def)
qed

text \<open>
  C4, amended: the wall-collision resolution pushes the dot along the normal from the
  violated wall point to the dot's centre by half of \<open>2 * radius - dist\<close>, that is by
  \<open>radius - dist / 2\<close>, where \<open>dist > 0\<close> is the distance from the centre to the wall
  point (neither the penetration depth \<open>radius - dist\<close> nor the full \<open>2 * radius - dist\<close>).
  It inverts the x-velocity alone at a left or right wall, unless \<open>dist = 2 * radius\<close>,
  where it inverts the y-velocity instead, and the y-velocity alone at a top or bottom
  wall. The first wall violated in the order left, right, top, bottom is the one resolved.
\<close>

theorem wall_collision:
  "(dot_x d \<noteq> wx \<longrightarrow>
      collideWithWall wx (dot_y d) d =
        Inr (d\<lparr>dot_x := dot_x d + (dot_x d - wx) / \<bar>dot_x d - wx\<bar> * (radius d - \<bar>dot_x d - wx\<bar> / 2),
               velocity := (if \<bar>dot_x d - wx\<bar> = 2 * radius d
                            then (fst (velocity d), - snd (velocity d))
                            else (- fst (velocity d), snd (velocity d)))\<rparr>))
   \<and> (dot_y d \<noteq> wy \<longrightarrow>
      collideWithWall (dot_x d) wy d =
        Inr (d\<lparr>dot_y := dot_y d + (dot_y d - wy) / \<bar>dot_y d - wy\<bar> * (radius d - \<bar>dot_y d - wy\<bar> / 2),
               velocity := (fst (velocity d), - snd (velocity d))\<rparr>))
   \<and> (dot_x d - radius d \<le> leftMinX w \<longrightarrow>
      checkWallCollisionLeftPatch w d = collideWithWall (leftMinX w) (dot_y d) d)
   \<and> (leftMinX w < dot_x d - radius d \<and> leftMaxX w \<le> dot_x d + radius d \<longrightarrow>
      checkWallCollisionLeftPatch w d = collideWithWall (leftMaxX w) (dot_y d) d)
   \<and> (leftMinX w < dot_x d - radius d \<and> dot_x d + radius d < leftMaxX w
        \<and> dot_y d - radius d \<le> patchMinY w \<longrightarrow>
      checkWallCollisionLeftPatch w d = collideWithWall (dot_x d) (patchMinY w) d)
   \<and> (leftMinX w < dot_x d - radius d \<and> dot_x d + radius d < leftMaxX w
        \<and> patchMinY w < dot_y d - radius d \<and> patchMaxY w \<le> dot_y d + radius d \<longrightarrow>
      checkWallCollisionLeftPatch w d = collideWithWall (dot_x d) (patchMaxY w) d)
   \<and> (dot_x d - radius d \<le> rightMinX w \<longrightarrow>
      checkWallCollisionRightPatch w d = collideWithWall (rightMinX w) (dot_y d) d)
   \<and> (rightMinX w < dot_x d - radius d \<and> rightMaxX w \<le> dot_x d + radius d \<longrightarrow>
      checkWallCollisionRightPatch w d = collideWithWall (rightMaxX w) (dot_y d) d)
   \<and> (rightMinX w < dot_x d - radius d \<and> dot_x d + radius d < rightMaxX w
        \<and> dot_y d - radius d \<le> patchMinY w \<longrightarrow>
      checkWallCollisionRightPatch w d = collideWithWall (dot_x d) (patchMinY w) d)
   \<and> (rightMinX w < dot_x d - radius d \<and> dot_x d + radius d < rightMaxX w
        \<and> patchMinY w < dot_y d - radius d \<and> patchMaxY w \<le> dot_y d + radius d \<longrightarrow>
      checkWallCollisionRightPatch w d = collideWithWall (dot_x d) (patchMaxY w) d)"
  using collideWithWall_vertical [of d wx] collideWithWall_horizontal [of d wy]
  by (simp add: checkWallCollisionLeftPatch_def checkWallCollisionRightPatch_def)

text \<open>
  C4, as stated, fails: a dot of radius 5 whose centre is 3 from the left wall penetrates
  it by 2; the full penetration would put the centre at 5 (and the full minimum translation
  at 10), the code puts it at 6.5.
\<close>

theorem wall_collision_counterexample:
  "checkWallCollisionLeftPatch exampleWorld (exampleDot 3 50 True (-1, 2))
     = Inr (exampleDot (13/2) 50 True (1, 2))
   \<and> dot_x (exampleDot 3 50 True (-1, 2))
       + (radius (exampleDot 3 50 True (-1, 2))
           - \<bar>dot_x (exampleDot 3 50 True (-1, 2)) - leftMinX exampleWorld\<bar>) = 5
   \<and> dot_x (exampleDot 3 50 True (-1, 2))
       + (2 * radius (exampleDot 3 50 True (-1, 2))
           - \<bar>dot_x (exampleDot 3 50 True (-1, 2)) - leftMinX exampleWorld\<bar>) = 10"
proof -
  have "sqrt 9 = 3" using real_sqrt_abs [of 3] by simp
  then show ?thesis
    by (simp add: checkWallCollisionLeftPatch_def collideWithWall_def exampleWorld_def
          exampleDot_def Let_def)
qed

theorem wall_collision_witness:
  "checkWallCollisionLeftPatch exampleWorld (exampleDot 3 50 True (-1, 2))
     = Inr (exampleDot (13/2) 50 True (1, 2))
   \<and> checkWallCollisionLeftPatch exampleWorld (exampleDot 97 50 True (1, 2))
     = Inr (exampleDot (187/2) 50 True (-1, 2))
   \<and> checkWallCollisionLeftPatch exampleWorld (exampleDot 50 4 True (1, -2))
     = Inr (exampleDot 50 7 True (1, 2))
   \<and> checkWallCollisionLeftPatch exampleWorld (exampleDot 50 98 True (1, 2))
     = Inr (exampleDot 50 94 True (1, -2))
   \<and> checkWallCollisionRightPatch exampleWorld (exampleDot 203 50 True (-1, 2))
     = Inr (exampleDot (413/2) 50 True (1, 2))
   \<and> checkWallCollisionRightPatch exampleWorld (exampleDot 297 50 True (1, 2))
     = Inr (exampleDot (587/2) 50 True (-1, 2))
   \<and> checkWallCollisionRightPatch exampleWorld (exampleDot 250 4 True (1, -2))
     = Inr (exampleDot 250 7 True (1, 2))
   \<and> checkWallCollisionRightPatch exampleWorld (exampleDot 250 98 True (1, 2))
     = Inr (exampleDot 250 94 True (1, -2))"
  using wall_collision [of "exampleDot 3 50 True (-1, 2)" 0 0 exampleWorld]
    wall_collision [of "exampleDot 97 50 True (1, 2)" 100 0 exampleWorld]
    wall_collision [of "exampleDot 50 4 True (1, -2)" 0 0 exampleWorld]
    wall_collision [of "exampleDot 50 98 True (1, 2)" 0 100 exampleWorld]
    wall_collision [of "exampleDot 203 50 True (-1, 2)" 200 0 exampleWorld]
    wall_collision [of "exampleDot 297 50 True (1, 2)" 300 0 exampleWorld]
    wall_collision [of "exampleDot 250 4 True (1, -2)" 0 0 exampleWorld]
    wall_collision [of "exampleDot 250 98 True (1, 2)" 0 100 exampleWorld]
  by (simp add: exampleWorld_def exampleDot_def)


lemma collideWithDot_result:
  assumes "j \<noteq> i"
    and "0 < centreDistance (dots ! i) (dots ! j)"
    and "centreDistance (dots ! i) (dots ! j) \<le> 2 * radius (dots ! i)"
  shows "collideWithDot i j dots =
     (let this = dots ! i; dot = dots ! j;
          mtd = minimumTranslation this dot;
          un = unitNormal this dot; ut = unitTangent this dot;
          v1 = (fst un * along un (velocity dot) + fst ut * along ut (velocity this),
                snd un * along un (velocity dot) + snd ut * along ut (velocity this));
          v2 = (fst un * along un (velocity this) + fst ut * along ut (velocity dot),
                snd un * along un (velocity this) + snd ut * along ut (velocity dot))
      in if isRandom this \<and> \<not> isRandom dot then
           Inr (dots[i := this\<lparr>dot_x := dot_x this + fst mtd, dot_y := dot_y this + snd mtd,
                               velocity := v1\<rparr>])
         else if \<not> isRandom this \<and> isRandom dot then
           Inr (dots[j := dot\<lparr>dot_x := dot_x dot - fst mtd, dot_y := dot_y dot - snd mtd,
                              velocity := v2\<rparr>])
         else
           Inr (dots[i := this\<lparr>dot_x := dot_x this + fst mtd / 2,
                               dot_y := dot_y this + snd mtd / 2, velocity := v1\<rparr>,
                     j := dot\<lparr>dot_x := dot_x dot - fst mtd / 2,
                              dot_y := dot_y dot - snd mtd / 2, velocity := v2\<rparr>]))"
proof -
  have keep: "dots[i := a, j := dots ! j] = dots[i := a]" for a
    using assms(1) by (metis list_update_id list_update_swap)
  show ?thesis
    using assms(1)
    by (simp add: collideWithDot_def collideWithOther_result [OF assms(2,3)] Let_def keep)
qed

text \<open>
  C6, amended. With \<open>this\<close> the dot at index \<open>i\<close> and \<open>dot\<close> another dot, at index \<open>j\<close>,
  in collision and with centres at two different points (\<open>0 < dist \<le> 2 * radius\<close>):
  Random against Fixed moves only the Random dot, by the full minimum translation, and
  updates only its velocity, the Fixed dot and every other dot staying as they are; two
  dots of the same mode are each moved by half of it and both velocities are updated. A
  call of a dot with itself changes nothing, wherever the dots are.
\<close>

theorem collideWithDot_modes:
  fixes dots ds :: "Dot list" and i j n :: nat
  defines "this \<equiv> dots ! i" and "dot \<equiv> dots ! j"
  defines "mtd \<equiv> minimumTranslation this dot"
  defines "un \<equiv> unitNormal this dot" and "ut \<equiv> unitTangent this dot"
  defines "v1 \<equiv> (fst un * along un (velocity dot) + fst ut * along ut (velocity this),
                  snd un * along un (velocity dot) + snd ut * along ut (velocity this))"
  defines "v2 \<equiv> (fst un * along un (velocity this) + fst ut * along ut (velocity dot),
                  snd un * along un (velocity this) + snd ut * along ut (velocity dot))"
  shows "(j \<noteq> i \<and> 0 < centreDistance this dot \<and> centreDistance this dot \<le> 2 * radius this
            \<and> isRandom this \<and> \<not> isRandom dot \<longrightarrow>
            collideWithDot i j dots =
              Inr (dots[i := this\<lparr>dot_x := dot_x this + fst mtd, dot_y := dot_y this + snd mtd,
                                  velocity := v1\<rparr>]))
       \<and> (j \<noteq> i \<and> 0 < centreDistance this dot \<and> centreDistance this dot \<le> 2 * radius this
            \<and> \<not> isRandom this \<and> isRandom dot \<longrightarrow>
            collideWithDot i j dots =
              Inr (dots[j := dot\<lparr>dot_x := dot_x dot - fst mtd, dot_y := dot_y dot - snd mtd,
                                 velocity := v2\<rparr>]))
       \<and> (j \<noteq> i \<and> 0 < centreDistance this dot \<and> centreDistance this dot \<le> 2 * radius this
            \<and> isRandom this = isRandom dot \<longrightarrow>
            collideWithDot i j dots =
              Inr (dots[i := this\<lparr>dot_x := dot_x this + fst mtd / 2,
                                  dot_y := dot_y this + snd mtd / 2, velocity := v1\<rparr>,
                        j := dot\<lparr>dot_x := dot_x dot - fst mtd / 2,
                                 dot_y := dot_y dot - snd mtd / 2, velocity := v2\<rparr>]))
       \<and> collideWithDot n n ds = Inr ds"
proof -
  have self: "collideWithDot n n ds = Inr ds"
    by (simp add: collideWithDot_def)
  have r: "collideWithDot i j dots =
     (if isRandom this \<and> \<not> isRandom dot then
           Inr (dots[i := this\<lparr>dot_x := dot_x this + fst mtd, dot_y := dot_y this + snd mtd,
                               velocity := v1\<rparr>])
         else if \<not> isRandom this \<and> isRandom dot then
           Inr (dots[j := dot\<lparr>dot_x := dot_x dot - fst mtd, dot_y := dot_y dot - snd mtd,
                              velocity := v2\<rparr>])
         else
           Inr (dots[i := this\<lparr>dot_x := dot_x this + fst mtd / 2,
                               dot_y := dot_y this + snd mtd / 2, velocity := v1\<rparr>,
                     j := dot\<lparr>dot_x := dot_x dot - fst mtd / 2,
                              dot_y := dot_y dot - snd mtd / 2, velocity := v2\<rparr>]))"
    if "j \<noteq> i" "0 < centreDistance this dot" "centreDistance this dot \<le> 2 * radius this"
    using collideWithDot_result [of j i dots] that
    unfolding this_def dot_def mtd_def un_def ut_def v1_def v2_def Let_def by simp
  show ?thesis using self r by auto
qed

text \<open>
  C6, as stated, fails for two dots whose centres coincide: the distance 0 passes the
  collision test, the division by it leaves no number for the translation or the
  velocities, and no dot is displaced by a minimum translation.
\<close>

theorem collideWithDot_modes_counterexample:
  "centreDistance (exampleDot 20 30 True (1, 0)) (exampleDot 20 30 False (-1, 0)) = 0
   \<and> centreDistance (exampleDot 20 30 True (1, 0)) (exampleDot 20 30 False (-1, 0))
       \<le> 2 * radius (exampleDot 20 30 True (1, 0))
   \<and> collideWithDot 0 1 [exampleDot 20 30 True (1, 0), exampleDot 20 30 False (-1, 0)]
       = Inl NaN_coordinates
   \<and> collideWithDot 0 1 [exampleDot 20 30 True (1, 0), exampleDot 20 30 True (-1, 0)]
       = Inl NaN_coordinates"
  by (simp add: centreDistance_def collideWithDot_def collideWithOther_def exampleDot_def Let_def)

text \<open>
  C5, amended: for two distinct dots of the same motion mode whose centre distance is
  positive and at most twice the radius of the dot resolving the collision (the sum of
  the radii, all dots of a world having one radius), \<open>collideWithDot\<close> exchanges the
  velocity components along the centre-to-centre normal and keeps both tangential
  components; two such dots of radius 5 at distance 8 with velocities \<open>(1, 0)\<close> and
  \<open>(-1, 0)\<close> end with \<open>(-1, 0)\<close> and \<open>(1, 0)\<close>.
\<close>

theorem collideWithDot_exchange:
  fixes dots :: "Dot list" and i j :: nat
  defines "un \<equiv> unitNormal (dots ! i) (dots ! j)" and "ut \<equiv> unitTangent (dots ! i) (dots ! j)"
  assumes "j \<noteq> i" and "i < length dots" and "j < length dots"
    and "isRandom (dots ! i) = isRandom (dots ! j)"
    and "0 < centreDistance (dots ! i) (dots ! j)"
    and "centreDistance (dots ! i) (dots ! j) \<le> 2 * radius (dots ! i)"
  shows "(\<exists>dots'. collideWithDot i j dots = Inr dots'
            \<and> along un (velocity (dots' ! i)) = along un (velocity (dots ! j))
            \<and> along un (velocity (dots' ! j)) = along un (velocity (dots ! i))
            \<and> along ut (velocity (dots' ! i)) = along ut (velocity (dots ! i))
            \<and> along ut (velocity (dots' ! j)) = along ut (velocity (dots ! j)))
       \<and> (\<exists>dots'. collideWithDot 0 1 [exampleDot 0 0 m (1, 0), exampleDot 8 0 m (-1, 0)] = Inr dots'
            \<and> map velocity dots' = [(-1, 0), (1, 0)])"
proof -
  have d: "0 < centreDistance (dots ! i) (dots ! j)" by fact
  note nn = along_unitNormal_self [OF d, folded un_def]
  note tt = along_unitTangent_self [OF d, folded ut_def]
  note nt = along_normal_tangent [of "dots ! i" "dots ! j", folded un_def ut_def]
  have general: "\<exists>dots'. collideWithDot i j dots = Inr dots'
            \<and> along un (velocity (dots' ! i)) = along un (velocity (dots ! j))
            \<and> along un (velocity (dots' ! j)) = along un (velocity (dots ! i))
            \<and> along ut (velocity (dots' ! i)) = along ut (velocity (dots ! i))
            \<and> along ut (velocity (dots' ! j)) = along ut (velocity (dots ! j))"
    using assms(3-6)
    by (simp add: collideWithDot_result [OF assms(3) d assms(8)] Let_def
          un_def [symmetric] ut_def [symmetric] along_combination nn tt nt)
  have "sqrt 64 = 8" using real_sqrt_abs [of 8] by simp
  then have "collideWithDot 0 1 [exampleDot 0 0 m (1, 0), exampleDot 8 0 m (-1, 0)]
      = Inr [exampleDot (-1) 0 m (-1, 0), exampleDot 9 0 m (1, 0)]"
    by (simp add: collideWithDot_def collideWithOther_def exampleDot_def Let_def)
  then have "\<exists>dots'. collideWithDot 0 1 [exampleDot 0 0 m (1, 0), exampleDot 8 0 m (-1, 0)] = Inr dots'
            \<and> map velocity dots' = [(-1, 0), (1, 0)]"
    by (simp add: exampleDot_def)
  with general show ?thesis by blast
qed



theorem collideWithDot_modes_witness:
  "collideWithDot 0 1 [exampleDot 0 0 True (1, 0), exampleDot 8 0 False (-1, 0)]
     = Inr [exampleDot (-2) 0 True (-1, 0), exampleDot 8 0 False (-1, 0)]
   \<and> collideWithDot 0 1 [exampleDot 0 0 False (1, 0), exampleDot 8 0 True (-1, 0)]
     = Inr [exampleDot 0 0 False (1, 0), exampleDot 10 0 True (1, 0)]
   \<and> collideWithDot 0 1 [exampleDot 0 0 True (1, 0), exampleDot 8 0 True (-1, 0)]
     = Inr [exampleDot (-1) 0 True (-1, 0), exampleDot 9 0 True (1, 0)]
   \<and> collideWithDot 0 1 [exampleDot 0 0 False (1, 0), exampleDot 8 0 False (-1, 0)]
     = Inr [exampleDot (-1) 0 False (-1, 0), exampleDot 9 0 False (1, 0)]
   \<and> collideWithDot 1 1 [exampleDot 0 0 True (1, 0), exampleDot 80 0 True (-1, 0)]
     = Inr [exampleDot 0 0 True (1, 0), exampleDot 80 0 True (-1, 0)]"
proof -
  have s: "sqrt 64 = 8" using real_sqrt_abs [of 8] by simp
  have ev: "centreDistance (exampleDot 0 0 a u) (exampleDot 8 0 b v) = 8" for a b u v
    by (simp add: centreDistance_def exampleDot_def s)
  have r: "radius (exampleDot 0 0 a u) = 5" for a u
    by (simp add: exampleDot_def)
  show ?thesis
    using collideWithDot_modes [where i = 0 and j = 1
        and dots = "[exampleDot 0 0 True (1, 0), exampleDot 8 0 False (-1, 0)]"
        and n = 1 and ds = "[exampleDot 0 0 True (1, 0), exampleDot 80 0 True (-1, 0)]"]
      collideWithDot_modes [where i = 0 and j = 1
        and dots = "[exampleDot 0 0 False (1, 0), exampleDot 8 0 True (-1, 0)]"]
      collideWithDot_modes [where i = 0 and j = 1
        and dots = "[exampleDot 0 0 True (1, 0), exampleDot 8 0 True (-1, 0)]"]
      collideWithDot_modes [where i = 0 and j = 1
        and dots = "[exampleDot 0 0 False (1, 0), exampleDot 8 0 False (-1, 0)]"]
    by (simp add: ev r)
      (simp add: exampleDot_def minimumTranslation_def unitNormal_def unitTangent_def
         centreNormal_def centreDistance_def along_def s)
qed

text \<open>
  C5, as stated, fails for a Random dot against a Fixed one: at distance 8 with radii 5 the
  Fixed dot keeps its velocity \<open>(-1, 0)\<close>, whose normal component stays 1, where the
  exchange would give it the Random dot's -1.
\<close>

theorem collideWithDot_exchange_counterexample:
  "centreDistance (exampleDot 0 0 True (1, 0)) (exampleDot 8 0 False (-1, 0)) = 8
   \<and> radius (exampleDot 0 0 True (1, 0)) + radius (exampleDot 8 0 False (-1, 0)) = 10
   \<and> collideWithDot 0 1 [exampleDot 0 0 True (1, 0), exampleDot 8 0 False (-1, 0)]
       = Inr [exampleDot (-2) 0 True (-1, 0), exampleDot 8 0 False (-1, 0)]
   \<and> unitNormal (exampleDot 0 0 True (1, 0)) (exampleDot 8 0 False (-1, 0)) = (-1, 0)
   \<and> along (-1, 0) (velocity (exampleDot 0 0 True (1, 0))) = -1
   \<and> along (-1, 0) (velocity (exampleDot 8 0 False (-1, 0))) = 1"
proof -
  have s: "sqrt 64 = 8" using real_sqrt_abs [of 8] by simp
  show ?thesis
    by (simp add: collideWithDot_def collideWithOther_def exampleDot_def Let_def s
          centreDistance_def unitNormal_def centreNormal_def along_def)
qed

theorem collideWithDot_exchange_witness:
  "\<exists>dots'. collideWithDot 0 1 [exampleDot 0 0 True (1, 2), exampleDot 8 0 True (-3, 5)] = Inr dots'
      \<and> map velocity dots' = [(-3, 2), (1, 5)]"
proof -
  have s: "sqrt 64 = 8" using real_sqrt_abs [of 8] by simp
  have ev: "centreDistance (exampleDot 0 0 a u) (exampleDot 8 0 b v) = 8" for a b u v
    by (simp add: centreDistance_def exampleDot_def s)
  have r: "radius (exampleDot 0 0 a u) = 5" "isRandom (exampleDot x y a u) = a" for a u x y
    by (simp_all add: exampleDot_def)
  from collideWithDot_exchange [of 1 0 "[exampleDot 0 0 True (1, 2), exampleDot 8 0 True (-3, 5)]"]
  obtain dots' where
    "collideWithDot 0 1 [exampleDot 0 0 True (1, 2), exampleDot 8 0 True (-3, 5)] = Inr dots'"
    by (auto simp: ev r)
  moreover have "collideWithDot 0 1 [exampleDot 0 0 True (1, 2), exampleDot 8 0 True (-3, 5)]
      = Inr [exampleDot (-1) 0 True (-3, 2), exampleDot 9 0 True (1, 5)]"
    by (simp add: collideWithDot_def collideWithOther_def exampleDot_def Let_def s)
  ultimately show ?thesis by (simp add: exampleDot_def)
qed



section \<open>Properties of the motion world\<close>

lemma getFreeSpotInPatch_accepts:
  assumes "\<forall>m<n. \<not> freeSpot w (rando env (k + 2 * m) * (maxX - minX) + minX)
                          (rando env (k + 2 * m + 1) * (maxY - minY) + minY) dots"
    and "freeSpot w (rando env (k + 2 * n) * (maxX - minX) + minX)
                    (rando env (k + 2 * n + 1) * (maxY - minY) + minY) dots"
  shows "getFreeSpotInPatch env w minX minY maxX maxY dots k =
     Some ((rando env (k + 2 * n) * (maxX - minX) + minX,
            rando env (k + 2 * n + 1) * (maxY - minY) + minY), k + 2 * n + 2)"
  using assms
proof (induction n arbitrary: k)
  case 0
  then show ?case
    by (subst getFreeSpotInPatch.simps) (simp add: Let_def)
next
  case (Suc n)
  from Suc.prems(1) have first: "\<not> freeSpot w (rando env k * (maxX - minX) + minX)
      (rando env (k + 1) * (maxY - minY) + minY) dots"
    by (metis add.right_neutral mult_zero_right zero_less_Suc)
  have rest: "\<forall>m<n. \<not> freeSpot w (rando env (k + 2 + 2 * m) * (maxX - minX) + minX)
      (rando env (k + 2 + 2 * m + 1) * (maxY - minY) + minY) dots"
  proof (intro allI impI)
    fix m assume "m < n"
    then have "Suc m < Suc n" by simp
    from Suc.prems(1) [rule_format, OF this] show "\<not> freeSpot w
        (rando env (k + 2 + 2 * m) * (maxX - minX) + minX)
        (rando env (k + 2 + 2 * m + 1) * (maxY - minY) + minY) dots"
      by (simp add: add.assoc add.left_commute)
  qed
  have last: "freeSpot w (rando env (k + 2 + 2 * n) * (maxX - minX) + minX)
      (rando env (k + 2 + 2 * n + 1) * (maxY - minY) + minY) dots"
    using Suc.prems(2) by (simp add: add.assoc add.left_commute)
  from Suc.IH [OF rest last] first show ?case
    by (subst getFreeSpotInPatch.simps) (simp add: Let_def add.assoc add.left_commute)
qed

lemma getFreeSpotInPatch_Some_free:
  assumes "getFreeSpotInPatch env w minX minY maxX maxY dots k = Some r"
  shows "\<exists>n. freeSpot w (rando env (k + 2 * n) * (maxX - minX) + minX)
                    (rando env (k + 2 * n + 1) * (maxY - minY) + minY) dots"
proof (rule getFreeSpotInPatch.raw_induct
    [where P = "\<lambda>env w minX minY maxX maxY dots k r.
       \<exists>n. freeSpot w (rando env (k + 2 * n) * (maxX - minX) + minX)
                      (rando env (k + 2 * n + 1) * (maxY - minY) + minY) dots", OF _ assms])
  fix getFree :: "'a environment \<Rightarrow> 'a MotionWorld \<Rightarrow> real \<Rightarrow> real \<Rightarrow> real \<Rightarrow> real \<Rightarrow> Dot list \<Rightarrow> nat
      \<Rightarrow> (vec \<times> nat) option"
    and env w minX minY maxX maxY dots k r
  assume IH: "\<And>env w minX minY maxX maxY dots k r.
      getFree env w minX minY maxX maxY dots k = Some r \<Longrightarrow>
      \<exists>n. freeSpot w (rando env (k + 2 * n) * (maxX - minX) + minX)
                     (rando env (k + 2 * n + 1) * (maxY - minY) + minY) dots"
    and body: "(let x = rando env k * (maxX - minX) + minX;
                    y = rando env (k + 1) * (maxY - minY) + minY
                in if \<not> freeSpot w x y dots
                   then getFree env w minX minY maxX maxY dots (k + 2)
                   else Some ((x, y), k + 2)) = Some r"
  show "\<exists>n. freeSpot w (rando env (k + 2 * n) * (maxX - minX) + minX)
                     (rando env (k + 2 * n + 1) * (maxY - minY) + minY) dots"
  proof (cases "freeSpot w (rando env k * (maxX - minX) + minX)
      (rando env (k + 1) * (maxY - minY) + minY) dots")
    case True
    then show ?thesis by (intro exI [of _ 0]) simp
  next
    case False
    with body have "getFree env w minX minY maxX maxY dots (k + 2) = Some r"
      by (simp add: Let_def)
    from IH [OF this] obtain n where "freeSpot w (rando env (k + 2 + 2 * n) * (maxX - minX) + minX)
        (rando env (k + 2 + 2 * n + 1) * (maxY - minY) + minY) dots" by blast
    then show ?thesis
      by (intro exI [of _ "Suc n"]) (simp add: add.assoc add.left_commute)
  qed
qed

lemma getFreeSpotInPatch_never:
  assumes "\<forall>n. \<not> freeSpot w (rando env (k + 2 * n) * (maxX - minX) + minX)
                        (rando env (k + 2 * n + 1) * (maxY - minY) + minY) dots"
  shows "getFreeSpotInPatch env w minX minY maxX maxY dots k = None"
proof (cases "getFreeSpotInPatch env w minX minY maxX maxY dots k")
  case None
  then show ?thesis .
next
  case (Some r)
  from getFreeSpotInPatch_Some_free [OF this] assms show ?thesis by blast
qed


lemma sqrt_le_iff_square: "0 \<le> c \<Longrightarrow> sqrt u \<le> c \<longleftrightarrow> u \<le> c\<^sup>2"
  using real_sqrt_le_iff [of u "c\<^sup>2"] by simp

lemma euclideanDistance_le:
  "0 \<le> c \<Longrightarrow> euclideanDistance x y a b \<le> c \<longleftrightarrow> (x - a)\<^sup>2 + (y - b)\<^sup>2 \<le> c\<^sup>2"
  by (simp add: euclideanDistance_def sqrt_le_iff_square)

text \<open>
  C7, amended: \<open>getFreeSpotInPatch\<close> has no bound on its attempts and raises no error. It
  returns the first candidate that \<open>freeSpot\<close> accepts, after as many attempts as that
  takes (attempt \<open>n\<close> uses the draws \<open>k + 2n\<close> and \<open>k + 2n + 1\<close>), and when no candidate is
  ever accepted it never returns.
\<close>

theorem getFreeSpotInPatch_unbounded:
  "((\<forall>m<n. \<not> freeSpot w (rando env (k + 2 * m) * (maxX - minX) + minX)
                          (rando env (k + 2 * m + 1) * (maxY - minY) + minY) dots)
      \<and> freeSpot w (rando env (k + 2 * n) * (maxX - minX) + minX)
                   (rando env (k + 2 * n + 1) * (maxY - minY) + minY) dots
     \<longrightarrow> getFreeSpotInPatch env w minX minY maxX maxY dots k =
           Some ((rando env (k + 2 * n) * (maxX - minX) + minX,
                  rando env (k + 2 * n + 1) * (maxY - minY) + minY), k + 2 * n + 2))
   \<and> ((\<forall>n. \<not> freeSpot w (rando env (k + 2 * n) * (maxX - minX) + minX)
                          (rando env (k + 2 * n + 1) * (maxY - minY) + minY) dots)
     \<longrightarrow> getFreeSpotInPatch env w minX minY maxX maxY dots k = None)"
  using getFreeSpotInPatch_accepts [of n w env k maxX minX maxY minY dots]
    getFreeSpotInPatch_never [of w env k maxX minX maxY minY dots]
  by blast

lemma exampleEnvironment_rando: "rando exampleEnvironment k = 1 / (real k + 2)"
  by (simp add: exampleEnvironment_def)

lemma exampleWorld_spacing: "dotSpacing exampleWorld + 2 * dotRadius exampleWorld = 12"
  by (simp add: exampleWorld_def)

lemma crowded_never_free:
  "\<not> freeSpot exampleWorld (rando exampleEnvironment i * (15 - 5) + 5)
       (rando exampleEnvironment j * (15 - 5) + 5) [exampleDot 10 10 True (1, 0)]"
proof -
  have r: "0 \<le> rando exampleEnvironment k \<and> rando exampleEnvironment k \<le> 1" for k
    by (simp add: exampleEnvironment_rando)
  have sq: "(t * 10 + 5 - 10)\<^sup>2 \<le> 25" if "0 \<le> t" "t \<le> 1" for t :: real
  proof -
    have "\<bar>t * 10 + 5 - 10\<bar> \<le> 5" using that by (simp add: abs_le_iff)
    then have "\<bar>t * 10 + 5 - 10\<bar>\<^sup>2 \<le> 5\<^sup>2" by (intro power_mono) simp_all
    then show ?thesis by simp
  qed
  have "(rando exampleEnvironment i * 10 + 5 - 10)\<^sup>2 + (rando exampleEnvironment j * 10 + 5 - 10)\<^sup>2 \<le> 50"
    using sq [of "rando exampleEnvironment i"] sq [of "rando exampleEnvironment j"] r [of i] r [of j]
    by linarith
  then show ?thesis
    by (simp add: euclideanDistance_le exampleWorld_spacing exampleDot_def)
qed

text \<open>
  C7, as stated, fails: the loop has no bound and raises nothing. In a patch whose inner
  region is the square from (5, 5) to (15, 15), every point is within 12 of a dot at
  (10, 10), and the search for a free spot never returns.
\<close>

theorem getFreeSpotInPatch_counterexample:
  "getFreeSpotInPatch exampleEnvironment exampleWorld 5 5 15 15 [exampleDot 10 10 True (1, 0)] 0 = None"
  by (rule getFreeSpotInPatch_never, rule allI, rule crowded_never_free)

theorem getFreeSpotInPatch_unbounded_witness:
  "getFreeSpotInPatch exampleEnvironment exampleWorld 5 5 95 95 [exampleDot 50 40 True (1, 0)] 0
     = Some ((55/2, 23), 4)
   \<and> getFreeSpotInPatch exampleEnvironment exampleWorld 5 5 15 15 [exampleDot 10 10 False (1, 0)] 0
     = None"
proof -
  have first: "\<not> freeSpot exampleWorld (rando exampleEnvironment 0 * (95 - 5) + 5)
      (rando exampleEnvironment 1 * (95 - 5) + 5) [exampleDot 50 40 True (1, 0)]"
    by (simp add: euclideanDistance_le exampleWorld_spacing exampleEnvironment_rando exampleDot_def
          power2_eq_square)
  have second: "freeSpot exampleWorld (rando exampleEnvironment 2 * (95 - 5) + 5)
      (rando exampleEnvironment 3 * (95 - 5) + 5) [exampleDot 50 40 True (1, 0)]"
    by (simp add: euclideanDistance_le exampleWorld_spacing exampleEnvironment_rando exampleDot_def
          power2_eq_square)
  have never: "\<not> freeSpot exampleWorld (rando exampleEnvironment i * (15 - 5) + 5)
       (rando exampleEnvironment j * (15 - 5) + 5) [exampleDot 10 10 False (1, 0)]" for i j
    using crowded_never_free [of i j] by (simp add: exampleDot_def)
  from getFreeSpotInPatch_unbounded [of 1 exampleWorld exampleEnvironment 0 95 5 95 5
      "[exampleDot 50 40 True (1, 0)]"] first second
  have a: "getFreeSpotInPatch exampleEnvironment exampleWorld 5 5 95 95 [exampleDot 50 40 True (1, 0)] 0
     = Some ((55/2, 23), 4)"
    by (simp add: exampleEnvironment_rando)
  from getFreeSpotInPatch_unbounded [of 0 exampleWorld exampleEnvironment 0 15 5 15 5
      "[exampleDot 10 10 False (1, 0)]"] never
  have b: "getFreeSpotInPatch exampleEnvironment exampleWorld 5 5 15 15 [exampleDot 10 10 False (1, 0)] 0
     = None"
    by simp
  from a b show ?thesis by simp
qed

text \<open>
  C9. When the run time plus \<open>delta\<close> reaches the maximum run time, \<open>updateDots\<close> (in both
  versions of the world) sets the state to \<open>PAUSED\<close> and returns: only the run time and
  the state change, so the dots of both patches, the quadtree and the number of random
  draws are as before.
\<close>

theorem updateDots_pause:
  "maxRunTime w \<le> runTime w + delta \<Longrightarrow>
   updateDots env delta (w, k) = Inr (w\<lparr>runTime := runTime w + delta, currentState := PAUSED\<rparr>, k)
   \<and> updateDots2 env delta (w, k) = Inr (w\<lparr>runTime := runTime w + delta, currentState := PAUSED\<rparr>, k)"
  by (simp add: updateDots_def updateDots2_def Let_def)

theorem updateDots_pause_witness:
  "updateDots exampleEnvironment 16
     (exampleWorld\<lparr>dotsLeft := [exampleDot 50 50 True (1, 0)],
                   dotsRight := [exampleDot 250 50 False (1, 0)], runTime := 4990\<rparr>, 7)
     = Inr (exampleWorld\<lparr>dotsLeft := [exampleDot 50 50 True (1, 0)],
                   dotsRight := [exampleDot 250 50 False (1, 0)], runTime := 5006,
                   currentState := PAUSED\<rparr>, 7)
   \<and> updateDots2 exampleEnvironment 16
     (exampleWorld\<lparr>dotsLeft := [exampleDot 50 50 True (1, 0)],
                   dotsRight := [exampleDot 250 50 False (1, 0)], runTime := 4990\<rparr>, 7)
     = Inr (exampleWorld\<lparr>dotsLeft := [exampleDot 50 50 True (1, 0)],
                   dotsRight := [exampleDot 250 50 False (1, 0)], runTime := 5006,
                   currentState := PAUSED\<rparr>, 7)"
  using updateDots_pause [of "exampleWorld\<lparr>dotsLeft := [exampleDot 50 50 True (1, 0)],
                   dotsRight := [exampleDot 250 50 False (1, 0)], runTime := 4990\<rparr>" 16 exampleEnvironment 7]
  by (simp add: exampleWorld_def)

section \<open>Properties of the tutorial-trial world\<close>

lemma forEach_append:
  "forEach f (xs @ ys) s = (case forEach f xs s of Inl e \<Rightarrow> Inl e | Inr s' \<Rightarrow> forEach f ys s')"
  by (induction xs arbitrary: s) (auto split: sum.splits)

lemma forEach_upt_invariant:
  assumes "forEach f [0..<n] s = Inr s'" and "P 0 s"
    and step: "\<And>i t t'. i < n \<Longrightarrow> P i t \<Longrightarrow> f i t = Inr t' \<Longrightarrow> P (Suc i) t'"
  shows "P n s'"
  using assms
proof (induction n arbitrary: s')
  case 0
  then show ?case by simp
next
  case (Suc n)
  from Suc.prems(1) obtain t where t: "forEach f [0..<n] s = Inr t" and last: "f n t = Inr s'"
    by (auto simp: forEach_append split: sum.splits)
  have "P n t"
    by (rule Suc.IH [OF t Suc.prems(2)]) (rule Suc.prems(3), simp_all)
  then show ?case using Suc.prems(3) [of n t s'] last by simp
qed

lemma new_Dot_mode:
  "isRandom (fst (new_Dot env k x y r dir t)) = (dir = RANDOM)
   \<and> direction (fst (new_Dot env k x y r dir t)) = dir"
  by (simp add: new_Dot_def Let_def)

lemma reassign_mode:
  "isRandom (fst (reassign env k p dir t d)) = (dir = RANDOM)
   \<and> direction (fst (reassign env k p dir t d)) = dir"
  by (simp add: reassign_def setPosition_def setDirection_def setTimers_def resetVelocity_def
        Let_def split: prod.splits)

lemma createDotsStep_Inr:
  assumes "createDotsStep env w cd shL shR i (m, c, dl, dr, k) = Inr (m', c', dl', dr', k')"
  shows "dl' = dl @ [last dl'] \<and> dr' = dr @ [last dr']
      \<and> (coherentPatchSide w \<noteq> LEFT \<longrightarrow> isRandom (last dl') \<and> direction (last dl') = RANDOM)
      \<and> (coherentPatchSide w \<noteq> RIGHT \<longrightarrow> isRandom (last dr') \<and> direction (last dr') = RANDOM)"
proof -
  from assms have ok: "\<not> length shL \<le> i" "\<not> length shR \<le> i"
    unfolding createDotsStep_def by (simp_all add: Let_def case_prod_beta split: if_splits)
  from assms show ?thesis
    unfolding createDotsStep_def
    by (clarsimp simp: ok Let_def case_prod_beta new_Dot_mode)
qed

lemma createNewTrialStep_Inr:
  assumes "createNewTrialStep env w cd shL shR i (m, c, dl, dr, k) = Inr (m', c', dl', dr', k')"
  shows "i < length dl \<and> i < length dr \<and> dl' = dl[i := dl' ! i] \<and> dr' = dr[i := dr' ! i]
      \<and> (coherentPatchSide w \<noteq> LEFT \<longrightarrow> isRandom (dl' ! i) \<and> direction (dl' ! i) = RANDOM)
      \<and> (coherentPatchSide w \<noteq> RIGHT \<longrightarrow> isRandom (dr' ! i) \<and> direction (dr' ! i) = RANDOM)"
proof -
  from assms have ok: "\<not> (length shL \<le> i \<or> length dl \<le> i)" "\<not> (length shR \<le> i \<or> length dr \<le> i)"
    unfolding createNewTrialStep_def by (simp_all add: Let_def case_prod_beta split: if_splits)
  from ok have i: "i < length dl" "i < length dr" by simp_all
  from assms show ?thesis
    unfolding createNewTrialStep_def
    using ok i by (clarsimp simp: Let_def case_prod_beta reassign_mode)
qed


lemma createDotsStep_invariant:
  assumes "createDotsStep env w cd shL shR i (m, c, dl, dr, k) = Inr (m', c', dl', dr', k')"
    and "length dl = i \<and> length dr = i \<and> nonCoherentRandom (coherentPatchSide w) dl dr"
  shows "length dl' = Suc i \<and> length dr' = Suc i \<and> nonCoherentRandom (coherentPatchSide w) dl' dr'"
proof -
  from createDotsStep_Inr [OF assms(1)] obtain a b where
    "dl' = dl @ [a]" "dr' = dr @ [b]"
    "coherentPatchSide w \<noteq> LEFT \<longrightarrow> isRandom a \<and> direction a = RANDOM"
    "coherentPatchSide w \<noteq> RIGHT \<longrightarrow> isRandom b \<and> direction b = RANDOM"
    by blast
  with assms(2) show ?thesis by (simp add: nonCoherentRandom_def)
qed

lemma createNewTrialStep_invariant:
  assumes "createNewTrialStep env w cd shL shR i (m, c, dl, dr, k) = Inr (m', c', dl', dr', k')"
    and "length dl = N \<and> length dr = N
         \<and> nonCoherentRandom (coherentPatchSide w) (take i dl) (take i dr)"
  shows "length dl' = N \<and> length dr' = N
         \<and> nonCoherentRandom (coherentPatchSide w) (take (Suc i) dl') (take (Suc i) dr')"
proof -
  from createNewTrialStep_Inr [OF assms(1)] obtain a b where
    i: "i < length dl" "i < length dr" and
    ab: "dl' = dl[i := a]" "dr' = dr[i := b]"
    "coherentPatchSide w \<noteq> LEFT \<longrightarrow> isRandom a \<and> direction a = RANDOM"
    "coherentPatchSide w \<noteq> RIGHT \<longrightarrow> isRandom b \<and> direction b = RANDOM"
    by blast
  have "take (Suc i) dl' = take i dl @ [a]" "take (Suc i) dr' = take i dr @ [b]"
    using i by (simp_all add: ab take_Suc_conv_app_nth)
  with ab assms(2) show ?thesis by (simp add: nonCoherentRandom_def)
qed

lemma createDots_invariant:
  assumes "dotsLeft w = []" "dotsRight w = []" "createDots env (w, k) = Inr (w', k')"
  shows "length (dotsLeft w') = numberOfDots w' \<and> length (dotsRight w') = numberOfDots w'
       \<and> nonCoherentRandom (coherentPatchSide w') (dotsLeft w') (dotsRight w')"
proof -
  define side where "side = (if rando1 env (k + 2) then Direction_0 env else Direction_1 env)"
  define w1 where "w1 = w\<lparr>coherentPatchSide := side\<rparr>"
  define cd where "cd = (if rando1 env (k + 3) then RIGHT else LEFT)"
  define f where "f = createDotsStep env w1 cd (randoSequence env k (leftGridPoints w))
                        (randoSequence env (k + 1) (rightGridPoints w))"
  from assms(3) obtain m c dl dr where
    loop: "forEach f [0..<numberOfDots w] (1, 0, [], [], k + 4) = Inr (m, c, dl, dr, k')"
    and w': "w' = w1\<lparr>dotsLeft := dl, dotsRight := dr\<rparr>"
    using assms(1,2)
    by (auto simp: createDots_def Let_def f_def w1_def cd_def side_def split: sum.splits)
  let ?P = "\<lambda>i st. case st of (m, c, dl, dr, k) \<Rightarrow>
      length dl = i \<and> length dr = i \<and> nonCoherentRandom side dl dr"
  have "?P (numberOfDots w) (m, c, dl, dr, k')"
  proof (rule forEach_upt_invariant [where P = ?P, OF loop])
    show "?P 0 (1, 0, [], [], k + 4)" by (simp add: nonCoherentRandom_def)
  next
    fix i t t' assume "i < numberOfDots w" "?P i t" "f i t = Inr t'"
    then show "?P (Suc i) t'"
      using createDotsStep_invariant [of env w1 cd _ _ i]
      by (cases t; cases t') (simp add: f_def w1_def)
  qed
  then show ?thesis by (simp add: w' w1_def)
qed

lemma createNewTrial_invariant:
  assumes "length (dotsLeft w) = numberOfDots w" "length (dotsRight w) = numberOfDots w"
    "createNewTrial env (w, k) = Inr (w', k')"
  shows "length (dotsLeft w') = numberOfDots w' \<and> length (dotsRight w') = numberOfDots w'
       \<and> nonCoherentRandom (coherentPatchSide w') (dotsLeft w') (dotsRight w')"
proof -
  define side where "side = (if rando1 env (k + 2) then Direction_0 env else Direction_1 env)"
  define w1 where "w1 = w\<lparr>coherentPatchSide := side\<rparr>"
  define cd where "cd = (if rando1 env (k + 3) then RIGHT else LEFT)"
  define f where "f = createNewTrialStep env w1 cd (randoSequence env k (leftGridPoints w))
                        (randoSequence env (k + 1) (rightGridPoints w))"
  define N where "N = numberOfDots w"
  from assms(3) obtain m c dl dr where
    loop: "forEach f [0..<N] (1, 0, dotsLeft w, dotsRight w, k + 4) = Inr (m, c, dl, dr, k')"
    and w': "w' = w1\<lparr>dotsLeft := dl, dotsRight := dr\<rparr>"
    by (auto simp: createNewTrial_def Let_def f_def w1_def cd_def side_def N_def split: sum.splits)
  let ?P = "\<lambda>i st. case st of (m, c, dl, dr, k) \<Rightarrow>
      length dl = N \<and> length dr = N \<and> nonCoherentRandom side (take i dl) (take i dr)"
  have "?P N (m, c, dl, dr, k')"
  proof (rule forEach_upt_invariant [where P = ?P, OF loop])
    show "?P 0 (1, 0, dotsLeft w, dotsRight w, k + 4)"
      using assms(1,2) by (simp add: nonCoherentRandom_def N_def)
  next
    fix i t t' assume "i < N" "?P i t" "f i t = Inr t'"
    then show "?P (Suc i) t'"
      using createNewTrialStep_invariant [of env w1 cd _ _ i _ _ _ _ _ _ _ _ _ _ N]
      by (cases t; cases t') (simp add: f_def w1_def)
  qed
  then show ?thesis by (auto simp: w' w1_def N_def)
qed

text \<open>
  C10. After \<open>createDots\<close> (called by the constructor, on empty arrays) and after every
  \<open>createNewTrial\<close> (on the arrays of \<open>numberOfDots\<close> dots that \<open>createDots\<close> leaves),
  both patches hold \<open>numberOfDots\<close> dots and every dot of a patch other than the one named
  by \<open>coherentPatchSide\<close> is in Random mode.
\<close>

theorem noncoherent_patch_random:
  "(dotsLeft w = [] \<and> dotsRight w = [] \<and> createDots env (w, k) = Inr (w', k') \<longrightarrow>
      length (dotsLeft w') = numberOfDots w' \<and> length (dotsRight w') = numberOfDots w'
      \<and> nonCoherentRandom (coherentPatchSide w') (dotsLeft w') (dotsRight w'))
   \<and> (length (dotsLeft w) = numberOfDots w \<and> length (dotsRight w) = numberOfDots w
       \<and> createNewTrial env (w, k) = Inr (w', k') \<longrightarrow>
      length (dotsLeft w') = numberOfDots w' \<and> length (dotsRight w') = numberOfDots w'
      \<and> nonCoherentRandom (coherentPatchSide w') (dotsLeft w') (dotsRight w'))"
  using createDots_invariant [of w env k w' k'] createNewTrial_invariant [of w env k w' k']
  by blast


lemma upt_two: "[0..<2] = [0, Suc 0]"
  by (simp add: upt_rec [of 0] upt_rec [of 1] numeral_2_eq_2)


theorem noncoherent_patch_random_witness:
  "(\<exists>w' k'. createDots exampleEnvironment (trialWorld, 0) = Inr (w', k')
       \<and> coherentPatchSide w' = LEFT \<and> map isRandom (dotsLeft w') = [False, True]
       \<and> map isRandom (dotsRight w') = [True, True])
   \<and> (\<exists>w' k'. createNewTrial exampleEnvironment
         (trialWorld\<lparr>dotsLeft := [exampleDot 50 50 False (1, 0), exampleDot 70 50 True (1, 0)],
                     dotsRight := [exampleDot 250 50 True (1, 0), exampleDot 270 50 False (1, 0)]\<rparr>, 1)
         = Inr (w', k')
       \<and> coherentPatchSide w' = RIGHT \<and> map isRandom (dotsLeft w') = [True, True]
       \<and> map isRandom (dotsRight w') = [False, True])"
proof -
  let ?w2 = "trialWorld\<lparr>dotsLeft := [exampleDot 50 50 False (1, 0), exampleDot 70 50 True (1, 0)],
                     dotsRight := [exampleDot 250 50 True (1, 0), exampleDot 270 50 False (1, 0)]\<rparr>"
  have all_two: "map isRandom ds = [True, True]"
    if "length ds = 2" "\<forall>d \<in> set ds. isRandom d \<and> direction d = RANDOM" for ds
  proof -
    from that(1) obtain a b where "ds = [a, b]"
      by (cases ds; cases "tl ds") auto
    with that(2) show ?thesis by simp
  qed
  obtain w1 k1 where c1: "createDots exampleEnvironment (trialWorld, 0) = Inr (w1, k1)"
    and s1: "coherentPatchSide w1 = LEFT" "map isRandom (dotsLeft w1) = [False, True]"
    "numberOfDots w1 = 2"
    by (simp add: createDots_def createDotsStep_def trialWorld_def exampleWorld_def
        exampleEnvironment_def new_Dot_def Let_def upt_two)
  have e1: "dotsLeft trialWorld = [] \<and> dotsRight trialWorld = []"
    by (simp add: trialWorld_def exampleWorld_def)
  from noncoherent_patch_random [of trialWorld exampleEnvironment 0 w1 k1] e1 c1 s1
  have "map isRandom (dotsRight w1) = [True, True]"
    by (intro all_two) (simp_all add: nonCoherentRandom_def)
  with c1 s1 have first: "\<exists>w' k'. createDots exampleEnvironment (trialWorld, 0) = Inr (w', k')
       \<and> coherentPatchSide w' = LEFT \<and> map isRandom (dotsLeft w') = [False, True]
       \<and> map isRandom (dotsRight w') = [True, True]"
    by (intro exI [of _ w1] exI [of _ k1]) simp
  obtain w2 k2 where c2: "createNewTrial exampleEnvironment (?w2, 1) = Inr (w2, k2)"
    and s2: "coherentPatchSide w2 = RIGHT" "map isRandom (dotsRight w2) = [False, True]"
    "numberOfDots w2 = 2"
    by (simp add: createNewTrial_def createNewTrialStep_def trialWorld_def exampleWorld_def
        exampleEnvironment_def reassign_def setPosition_def setDirection_def setTimers_def
        resetVelocity_def exampleDot_def Let_def upt_two)
  have e2: "length (dotsLeft ?w2) = numberOfDots ?w2 \<and> length (dotsRight ?w2) = numberOfDots ?w2"
    by (simp add: trialWorld_def exampleWorld_def)
  from noncoherent_patch_random [of ?w2 exampleEnvironment 1 w2 k2] e2 c2 s2
  have "map isRandom (dotsLeft w2) = [True, True]"
    by (intro all_two) (simp_all add: nonCoherentRandom_def)
  with c2 s2 have second: "\<exists>w' k'. createNewTrial exampleEnvironment (?w2, 1) = Inr (w', k')
       \<and> coherentPatchSide w' = RIGHT \<and> map isRandom (dotsLeft w') = [True, True]
       \<and> map isRandom (dotsRight w') = [False, True]"
    by (intro exI [of _ w2] exI [of _ k2]) simp
  from first second show ?thesis by blast
qed

lemma cos_one_pos: "0 < cos (1::real)"
proof -
  have "sin (1/2 :: real) \<le> 1/2" using sin_x_le_x [of "1/2"] by simp
  moreover have "0 < sin (1/2 :: real)" using sin_gt_zero_02 [of "1/2"] by simp
  ultimately have "(sin (1/2 :: real))\<^sup>2 \<le> (1/2)\<^sup>2"
    by (intro power_mono) simp_all
  then have "(sin (1/2 :: real))\<^sup>2 \<le> 1/4" by (simp add: power2_eq_square)
  moreover have "cos (1::real) = 1 - 2 * (sin (1/2))\<^sup>2"
    using cos_double_sin [of "1/2 :: real"] by simp
  ultimately show ?thesis by simp
qed

lemma sin_two_pos: "0 < sin (2::real)"
proof -
  have "sin (2::real) = 2 * sin 1 * cos 1" using sin_double [of "1::real"] by simp
  moreover have "0 < sin (1::real)" using sin_gt_zero_02 [of 1] by simp
  ultimately show ?thesis using cos_one_pos by simp
qed

lemma sin_four_neg: "sin (4::real) < 0"
proof -
  have "sin (4::real) = 2 * sin 2 * cos 2" using sin_double [of "2::real"] by simp
  then show ?thesis using sin_two_pos cos_two_less_zero
    by (simp add: mult_pos_neg)
qed


lemma forEach_error:
  "forEach f xs s = Inl e \<Longrightarrow> \<exists>x t. f x t = Inl e"
  by (induction xs arbitrary: s) (auto split: sum.splits)

lemma forEach_upt_TypeError:
  assumes late: "\<And>i t. L \<le> i \<Longrightarrow> f i t = Inl TypeError"
    and only: "\<And>i t e. f i t = Inl e \<Longrightarrow> e = TypeError"
    and "L < n"
  shows "forEach f [0..<n] s = Inl TypeError"
proof -
  from \<open>L < n\<close> have split: "[0..<n] = [0..<L] @ L # [Suc L..<n]"
    by (metis less_imp_le_nat upt_add_eq_append upt_conv_Cons le0 le_add_diff_inverse plus_nat.add_0)
  show ?thesis
  proof (cases "forEach f [0..<L] s")
    case (Inl e)
    with forEach_error [OF Inl] only have "e = TypeError" by blast
    with Inl show ?thesis by (simp add: split forEach_append)
  next
    case (Inr t)
    then show ?thesis by (simp add: split forEach_append late)
  qed
qed

lemma createDotsStep_errors:
  "createDotsStep env w cd shL shR i st = Inl e \<Longrightarrow> e = TypeError"
  by (cases st) (auto simp: createDotsStep_def Let_def case_prod_beta split: if_splits)

lemma createDots_TypeError:
  assumes "length (randoSequence env k (leftGridPoints w)) < numberOfDots w"
  shows "createDots env (w, k) = Inl TypeError"
proof -
  let ?L = "length (randoSequence env k (leftGridPoints w))"
  have "forEach (createDotsStep env
          (w\<lparr>coherentPatchSide := if rando1 env (k + 2) then Direction_0 env else Direction_1 env\<rparr>)
          (if rando1 env (k + 3) then RIGHT else LEFT)
          (randoSequence env k (leftGridPoints w)) (randoSequence env (k + 1) (rightGridPoints w)))
        [0..<numberOfDots w] (1, 0, dotsLeft w, dotsRight w, k + 4) = Inl TypeError"
  proof (rule forEach_upt_TypeError [where L = ?L])
    fix i t assume "?L \<le> i"
    then show "createDotsStep env
          (w\<lparr>coherentPatchSide := if rando1 env (k + 2) then Direction_0 env else Direction_1 env\<rparr>)
          (if rando1 env (k + 3) then RIGHT else LEFT)
          (randoSequence env k (leftGridPoints w)) (randoSequence env (k + 1) (rightGridPoints w))
          i t = Inl TypeError"
      by (cases t) (simp add: createDotsStep_def Let_def)
  qed (use assms createDotsStep_errors in blast)+
  then show ?thesis by (simp add: createDots_def Let_def)
qed

lemma upt_five: "[0..<5] = [0, 1, 2, 3, 4::nat]"
  by code_simp

text \<open>
  C8 fails on the code. \<open>createGridPoints\<close> compares \<open>xLines * yLines\<close> with the number of
  dots before it drops the jittered points that fall outside the bounds. With five dots,
  a 10 x 50 area and spacing 10 the lattice has 1 x 5 = 5 points, nothing is thrown, the
  point of row 4 is dropped since \<open>sin 4 < 0\<close>, and the list returned is shorter than the
  population; \<open>createDots\<close> then fails on the missing grid point.
\<close>

theorem createGridPoints_too_few:
  "\<exists>ps. createGridPoints (exampleWorld\<lparr>numberOfDots := 5\<rparr>) 0 10 0 50 10 = Inr ps
      \<and> length ps < 5
      \<and> createDots exampleEnvironment
           (exampleWorld\<lparr>numberOfDots := 5, leftGridPoints := ps, rightGridPoints := ps\<rparr>, 0)
         = Inl TypeError"
proof -
  obtain ps where ps: "createGridPoints (exampleWorld\<lparr>numberOfDots := 5\<rparr>) 0 10 0 50 10 = Inr ps"
    and len: "length ps < 5"
    using sin_four_neg
    by (simp add: createGridPoints_def js_remainder_def Let_def exampleWorld_def upt_five)
  have "createDots exampleEnvironment
           (exampleWorld\<lparr>numberOfDots := 5, leftGridPoints := ps, rightGridPoints := ps\<rparr>, 0)
         = Inl TypeError"
    by (rule createDots_TypeError) (simp add: exampleEnvironment_def len)
  with ps len show ?thesis by blast
qed

end
